theory Spec2Isabelle
  imports Main "HOL-Library.Sublist"
begin

section \<open>The pipeline wrapper of toil-lib\<close>

text \<open>
  A shallow embedding of \<^verbatim>\<open>src/toil_lib/pipelineWrapperBuilder.py\<close>. The class
  \<^verbatim>\<open>PipelineWrapperBuilder\<close> is a record, its methods are functions that take the
  object and the outside world and return both, updated, next to the value or the
  exception of the call. The outside world is a file system (a map from paths to nodes),
  the list of operating-system calls made so far, and the log. What the Python standard
  library and the external programs do is not code of the repository: child processes,
  the JSON decoder, \<^verbatim>\<open>str.format\<close> and \<^verbatim>\<open>textwrap.dedent\<close> are fields of an
  environment record that every function takes as a parameter.
\<close>

subsection \<open>Python values and exceptions\<close>

type_synonym path = string

datatype pyval = PyBool bool | PyStr string | PyNone

fun truthy :: "pyval \<Rightarrow> bool" where
  "truthy (PyBool b) = b"
| "truthy (PyStr s) = (s \<noteq> [])"
| "truthy PyNone = False"

text \<open>An \<^verbatim>\<open>argparse.Namespace\<close>: \<^verbatim>\<open>vars(args)\<close> is its attribute dictionary.\<close>

type_synonym namespace = "string \<rightharpoonup> pyval"

datatype error =
    CalledProcessError int "string list"
  | OSError string
  | IOError string
  | RuntimeError error
  | UserError string
  | ConfigurationError string
  | AttributeError string
  | KeyError string
  | IndexError
  | ValueError

definition getattr :: "namespace \<Rightarrow> string \<Rightarrow> error + pyval" where
  "getattr ns k = (case ns k of None \<Rightarrow> Inl (AttributeError k) | Some v \<Rightarrow> Inr v)"

text \<open>
  \<^verbatim>\<open>flag and args.attr\<close> under \<^verbatim>\<open>if\<close>: the attribute is read only when the flag
  is true, and a missing attribute raises.
\<close>

definition flag_and :: "bool \<Rightarrow> namespace \<Rightarrow> string \<Rightarrow> error + bool" where
  "flag_and flag ns k =
     (if flag then (case getattr ns k of Inl e \<Rightarrow> Inl e | Inr v \<Rightarrow> Inr (truthy v))
      else Inr False)"

subsection \<open>The outside world\<close>

text \<open>
  The file system maps a path to the node it names. Paths are compared as strings, as
  the source builds them, and who owns a node is not part of the map but read from the
  environment.
\<close>

datatype node = Dir | File string

type_synonym filesystem = "path \<rightharpoonup> node"

datatype proc = Exited int string | NotStarted

datatype event =
    Exec "string list"
  | Stat path
  | Makedirs path
  | OpenWrite path string
  | Rmtree path
  | PrintStderr error

record world =
  fs :: filesystem
  trace :: "event list"
  logged :: "string list"

record docker_mount =
  Source :: string
  Destination :: string

text \<open>
  The environment: \<open>exec\<close> runs a command line on the current file system and gives how
  the process ended (its exit status and standard output, or that it could not be started)
  and the file system it leaves; \<open>owner\<close> is the uid and gid that \<^verbatim>\<open>os.stat\<close> reads;
  \<open>json_mounts\<close> is \<^verbatim>\<open>json.loads(text)[0]['Mounts']\<close>; \<open>str_format\<close> is
  \<^verbatim>\<open>template.format(**namespace)\<close>; \<open>dedent\<close> is \<^verbatim>\<open>textwrap.dedent\<close>.
\<close>

record env =
  exec :: "string list \<Rightarrow> filesystem \<Rightarrow> proc \<times> filesystem"
  owner :: "path \<Rightarrow> nat \<times> nat"
  json_mounts :: "string \<Rightarrow> error + docker_mount list"
  str_format :: "string \<Rightarrow> namespace \<Rightarrow> error + string"
  dedent :: "string \<Rightarrow> string"

definition log_info :: "string \<Rightarrow> world \<Rightarrow> world" where
  "log_info msg w = w\<lparr>logged := logged w @ [msg]\<rparr>"

definition record_event :: "event \<Rightarrow> world \<Rightarrow> world" where
  "record_event ev w = w\<lparr>trace := trace w @ [ev]\<rparr>"

fun argv0 :: "string list \<Rightarrow> string" where
  "argv0 [] = []"
| "argv0 (a # _) = a"

text \<open>
  \<^verbatim>\<open>subprocess.check_output\<close> and \<^verbatim>\<open>subprocess.check_call\<close>: a program that cannot be
  started raises OSError, a non-zero exit status raises CalledProcessError.
\<close>

fun proc_result :: "string list \<Rightarrow> proc \<Rightarrow> error + string" where
  "proc_result cmd NotStarted = Inl (OSError (argv0 cmd))"
| "proc_result cmd (Exited rc out) =
     (if rc \<noteq> 0 then Inl (CalledProcessError rc cmd) else Inr out)"

definition check_output :: "env \<Rightarrow> string list \<Rightarrow> world \<Rightarrow> (error + string) \<times> world" where
  "check_output E cmd w =
     (case exec E cmd (fs w) of
        (st, f) \<Rightarrow> (proc_result cmd st, record_event (Exec cmd) (w\<lparr>fs := f\<rparr>)))"

definition check_call :: "env \<Rightarrow> string list \<Rightarrow> world \<Rightarrow> (error + unit) \<times> world" where
  "check_call E cmd w =
     (case check_output E cmd w of
        (Inl e, w') \<Rightarrow> (Inl e, w')
      | (Inr out, w') \<Rightarrow> (Inr (), w'))"

text \<open>\<^verbatim>\<open>os.path.join\<close> of two components (posixpath).\<close>

definition path_join :: "path \<Rightarrow> string \<Rightarrow> path" where
  "path_join a b =
     (if b \<noteq> [] \<and> hd b = CHR ''/'' then b
      else if a = [] \<or> last a = CHR ''/'' then a @ b
      else a @ ''/'' @ b)"

definition os_path_exists :: "path \<Rightarrow> world \<Rightarrow> bool" where
  "os_path_exists p w = (fs w p \<noteq> None)"

text \<open>
  \<^verbatim>\<open>posixpath.split\<close>: the head is everything before the last slash, without its
  trailing slashes unless it consists of slashes only, and the tail is what follows the
  last slash.
\<close>

definition rstrip_slash :: "string \<Rightarrow> string" where
  "rstrip_slash s = rev (dropWhile (\<lambda>c. c = CHR ''/'') (rev s))"

definition path_split :: "path \<Rightarrow> path \<times> string" where
  "path_split p =
     (let head = rev (dropWhile (\<lambda>c. c \<noteq> CHR ''/'') (rev p));
          tail = rev (takeWhile (\<lambda>c. c \<noteq> CHR ''/'') (rev p)) in
      (if head \<noteq> [] \<and> \<not> list_all (\<lambda>c. c = CHR ''/'') head then rstrip_slash head
       else head,
       tail))"

text \<open>
  \<^verbatim>\<open>os.mkdir\<close>, on the file system alone: the name, taken without trailing slashes,
  must be free and the path that holds it must be a directory. The root and the current
  directory are nodes like any other, at \<^verbatim>\<open>/\<close> and at the empty path.
\<close>

datatype errno = ENOENT | ENOTDIR | EEXIST

definition mkdir :: "path \<Rightarrow> filesystem \<Rightarrow> errno option \<times> filesystem" where
  "mkdir p f =
     (let q = (if rstrip_slash p = [] then p else rstrip_slash p) in
      if f q \<noteq> None then (Some EEXIST, f)
      else
        (case f (fst (path_split q)) of
           None \<Rightarrow> (Some ENOENT, f)
         | Some (File t) \<Rightarrow> (Some ENOTDIR, f)
         | Some Dir \<Rightarrow> (None, f(q \<mapsto> Dir))))"

text \<open>
  \<^verbatim>\<open>os.makedirs\<close> as the library has it: the name is split into head and tail (once
  more when the tail is empty); a head that does not exist is made first, with every
  error but EEXIST raised again, and then the name itself, unless the tail is a dot.
\<close>

definition makedirs_parts :: "path \<Rightarrow> path \<times> string" where
  "makedirs_parts name =
     (if snd (path_split name) = [] then path_split (fst (path_split name))
      else path_split name)"

function makedirs :: "path \<Rightarrow> filesystem \<Rightarrow> errno option \<times> filesystem" where
  "makedirs name f =
     (if fst (makedirs_parts name) \<noteq> [] \<and> snd (makedirs_parts name) \<noteq> []
         \<and> f (fst (makedirs_parts name)) = None
      then
        (case makedirs (fst (makedirs_parts name)) f of
           (None, f1) \<Rightarrow>
             (if snd (makedirs_parts name) = ''.'' then (None, f1) else mkdir name f1)
         | (Some e, f1) \<Rightarrow>
             (if e \<noteq> EEXIST then (Some e, f1)
              else if snd (makedirs_parts name) = ''.'' then (None, f1)
              else mkdir name f1))
      else mkdir name f)"
  by pat_completeness auto
termination
proof (relation "measure (\<lambda>(name, f). length name)")
  show "wf (measure (\<lambda>(name, f). length name))"
    by simp
next
  fix name :: path and f :: filesystem
  assume a: "fst (makedirs_parts name) \<noteq> [] \<and> snd (makedirs_parts name) \<noteq> []
         \<and> f (fst (makedirs_parts name)) = None"
  have strip: "length (rstrip_slash s) \<le> length s" for s
    by (simp add: rstrip_slash_def) (metis length_dropWhile_le length_rev)
  have parts: "length (fst (path_split p)) + length (snd (path_split p)) \<le> length p" for p
  proof -
    have "length (rev (dropWhile (\<lambda>c. c \<noteq> CHR ''/'') (rev p)))
            + length (rev (takeWhile (\<lambda>c. c \<noteq> CHR ''/'') (rev p))) = length p"
      by (metis add.commute length_append length_rev takeWhile_dropWhile_id)
    then show ?thesis
      using strip [of "rev (dropWhile (\<lambda>c. c \<noteq> CHR ''/'') (rev p))"]
      by (auto simp: path_split_def Let_def)
  qed
  have pos: "1 \<le> length (snd (makedirs_parts name))"
    using a by (cases "snd (makedirs_parts name)") auto
  have "length (fst (makedirs_parts name)) < length name"
  proof (cases "snd (path_split name) = []")
    case True
    then have eq: "makedirs_parts name = path_split (fst (path_split name))"
      by (simp add: makedirs_parts_def)
    show ?thesis
      using pos parts [of name] parts [of "fst (path_split name)"] unfolding eq
      by linarith
  next
    case False
    then have eq: "makedirs_parts name = path_split name"
      by (simp add: makedirs_parts_def)
    show ?thesis
      using pos parts [of name] unfolding eq
      by linarith
  qed
  then show "((fst (makedirs_parts name), f), (name, f)) \<in> measure (\<lambda>(name, f). length name)"
    by simp
qed

declare makedirs.simps [simp del]

definition os_makedirs :: "path \<Rightarrow> world \<Rightarrow> (error + unit) \<times> world" where
  "os_makedirs p w =
     (case makedirs p (fs w) of
        (None, f) \<Rightarrow> (Inr (), record_event (Makedirs p) (w\<lparr>fs := f\<rparr>))
      | (Some e, f) \<Rightarrow> (Inl (OSError p), record_event (Makedirs p) (w\<lparr>fs := f\<rparr>)))"

text \<open>
  \<^verbatim>\<open>with open(p, 'w') as f: f.write(text)\<close>: the path that holds the file must be a
  directory, and the file itself must not be one.
\<close>

definition open_write :: "path \<Rightarrow> string \<Rightarrow> world \<Rightarrow> (error + unit) \<times> world" where
  "open_write p text w =
     (if snd (path_split p) = [] then (Inl (IOError p), record_event (OpenWrite p text) w)
      else
        (case fs w (fst (path_split p)) of
           Some Dir \<Rightarrow>
             (case fs w p of
                Some Dir \<Rightarrow> (Inl (IOError p), record_event (OpenWrite p text) w)
              | _ \<Rightarrow> (Inr (),
                       record_event (OpenWrite p text) (w\<lparr>fs := (fs w)(p \<mapsto> File text)\<rparr>)))
         | _ \<Rightarrow> (Inl (IOError p), record_event (OpenWrite p text) w)))"

definition os_stat :: "env \<Rightarrow> path \<Rightarrow> world \<Rightarrow> (error + nat \<times> nat) \<times> world" where
  "os_stat E p w =
     (case fs w p of
        None \<Rightarrow> (Inl (OSError p), record_event (Stat p) w)
      | Some n \<Rightarrow> (Inr (owner E p), record_event (Stat p) w))"

text \<open>
  A path lies in the tree of a directory when it is the directory or continues it behind
  a slash. \<^verbatim>\<open>shutil.rmtree\<close> removes the whole tree and raises when its argument is
  not a directory.
\<close>

definition in_tree :: "path \<Rightarrow> path \<Rightarrow> bool" where
  "in_tree d q = (q = d \<or> prefix (path_join d []) q)"

definition remove_tree :: "path \<Rightarrow> filesystem \<Rightarrow> filesystem" where
  "remove_tree d f = (\<lambda>q. if in_tree d q then None else f q)"

definition shutil_rmtree :: "path \<Rightarrow> world \<Rightarrow> (error + unit) \<times> world" where
  "shutil_rmtree p w =
     (case fs w p of
        Some Dir \<Rightarrow> (Inr (), record_event (Rmtree p) (w\<lparr>fs := remove_tree p (fs w)\<rparr>))
      | _ \<Rightarrow> (Inl (OSError p), record_event (Rmtree p) w))"

text \<open>Decimal digits of a natural number, as \<^verbatim>\<open>'{}'.format(n)\<close> prints them.\<close>

fun show_nat :: "nat \<Rightarrow> string" where
  "show_nat n =
     (if n < 10 then [''0123456789'' ! n]
      else show_nat (n div 10) @ [''0123456789'' ! (n mod 10)])"

subsection \<open>The wrapper object\<close>

text \<open>
  The attributes of a \<^verbatim>\<open>PipelineWrapperBuilder\<close>. \<^verbatim>\<open>_workdir\<close> and \<^verbatim>\<open>_mount\<close> do
  not exist before \<^verbatim>\<open>run\<close> sets them.
\<close>

record builder =
  self_name :: string
  self_desc :: string
  self_config :: string
  self_no_clean :: bool
  self_resume :: bool
  self_workdir :: "path option"
  self_mount :: "path option"

definition init :: "string \<Rightarrow> string \<Rightarrow> string \<Rightarrow> bool \<Rightarrow> bool \<Rightarrow> builder" where
  "init name desc config add_no_clean add_resume =
     \<lparr>self_name = name, self_desc = desc, self_config = config,
      self_no_clean = add_no_clean, self_resume = add_resume,
      self_workdir = None, self_mount = None\<rparr>"

text \<open>\<^verbatim>\<open>get_args\<close>: the parser, as its description and the flags it was given.\<close>

record parser =
  parser_description :: string
  parser_flags :: "string list"

definition get_args :: "builder \<Rightarrow> parser" where
  "get_args self =
     \<lparr>parser_description = self_desc self,
      parser_flags = (if self_no_clean self then [''--no-clean''] else [])
                   @ (if self_resume self then [''--resume''] else [])\<rparr>"

text \<open>
  Modelled from the spec: \<^verbatim>\<open>require\<close> is imported from the package's
  \<^verbatim>\<open>__init__\<close>, which is not among the sources. The spec has mount resolution fail
  "with a configuration error" where the source calls \<^verbatim>\<open>require\<close>, so a false
  condition raises a configuration error that carries the message.
\<close>

definition require :: "bool \<Rightarrow> string \<Rightarrow> error + unit" where
  "require expression message =
     (if expression then Inr () else Inl (ConfigurationError message))"

definition is_sock :: "string \<Rightarrow> bool" where
  "is_sock s = sublist ''docker.sock'' s"

definition mirrored :: "docker_mount \<Rightarrow> bool" where
  "mirrored x = (Source x = Destination x)"

definition msg_socket :: string where
  "msg_socket = ''Missing socket mount. Requires the following: ''
     @ ''docker run -v /var/run/docker.sock:/var/run/docker.sock''"

definition msg_two :: string where
  "msg_two = ''Docker Src/Dst mount points, invoked with the -v argument, ''
     @ ''must be the same if only using one mount point aside from the docker socket.''"

definition msg_mirror :: string where
  "msg_mirror = ''Wrong number of mirror mounts provided, see documentation.''"

text \<open>
  Lines 104 to 120 of \<^verbatim>\<open>_prepare_mount\<close>: from the list of mounts to the work mount.
  \<open>sock_mnt\<close> holds one boolean for each mount whose source contains
  \<^verbatim>\<open>docker.sock\<close>; the source only takes its length.
\<close>

definition select_work_mount :: "docker_mount list \<Rightarrow> error + path" where
  "select_work_mount mounts =
     (let sock_mnt = map mirrored (filter (\<lambda>x. is_sock (Source x)) mounts) in
      case require (length sock_mnt = 1) msg_socket of
        Inl e \<Rightarrow> Inl e
      | Inr _ \<Rightarrow>
         (case
            (if length mounts = 2 then
               (case require (list_all mirrored mounts) msg_two of
                  Inl e \<Rightarrow> Inl e
                | Inr _ \<Rightarrow> Inr (map Source (filter (\<lambda>x. \<not> is_sock (Source x)) mounts)))
             else
               (let mirror_mounts = map Source (filter mirrored mounts);
                    work_mount = filter (\<lambda>x. \<not> is_sock x) mirror_mounts in
                case require (length work_mount = 1) msg_mirror of
                  Inl e \<Rightarrow> Inl e
                | Inr _ \<Rightarrow> Inr work_mount))
          of
            Inl e \<Rightarrow> Inl e
          | Inr work_mount \<Rightarrow>
             (case work_mount of [] \<Rightarrow> Inl IndexError | m # _ \<Rightarrow> Inr m)))"

definition name_command :: "string list" where
  "name_command = [''docker'', ''ps'', ''--format'', ''{{.Names}}'']"

definition first_line :: "string \<Rightarrow> string" where
  "first_line out = takeWhile (\<lambda>c. c \<noteq> CHR 0x0A) out"

text \<open>The handler of line 96 turns a CalledProcessError into a RuntimeError.\<close>

fun no_container :: "error \<Rightarrow> error" where
  "no_container (CalledProcessError rc cmd) = RuntimeError (CalledProcessError rc cmd)"
| "no_container e = e"

text \<open>
  Lines 93 to 102 of \<^verbatim>\<open>_prepare_mount\<close>: the name of the first running container
  and the mounts that \<^verbatim>\<open>docker inspect\<close> reports for it.
\<close>

definition container_mounts :: "env \<Rightarrow> world \<Rightarrow> (error + docker_mount list) \<times> world" where
  "container_mounts E w =
     (case check_output E name_command w of
        (Inl e, w1) \<Rightarrow> (Inl (no_container e), w1)
      | (Inr out, w1) \<Rightarrow>
         (case check_output E [''docker'', ''inspect'', first_line out] w1 of
            (Inl e, w2) \<Rightarrow> (Inl e, w2)
          | (Inr text, w2) \<Rightarrow> (json_mounts E text, w2)))"

definition prepare_mount :: "env \<Rightarrow> builder \<Rightarrow> world \<Rightarrow> (error + path) \<times> builder \<times> world" where
  "prepare_mount E self w =
     (case container_mounts E w of
        (Inl e, w1) \<Rightarrow> (Inl e, self, w1)
      | (Inr mounts, w1) \<Rightarrow>
         (case select_work_mount mounts of
            Inl e \<Rightarrow> (Inl e, self, w1)
          | Inr m \<Rightarrow>
             (Inr m, self\<lparr>self_mount := Some m\<rparr>,
              log_info (''The work mount is: '' @ m) w1)))"

definition make_command_prefix :: "builder \<Rightarrow> path \<Rightarrow> path \<Rightarrow> path \<Rightarrow> string list" where
  "make_command_prefix self jobstore_path config_path workdir_path =
     [self_name self, ''run'', jobstore_path,
      ''--config'', config_path,
      ''--workDir'', workdir_path,
      ''--retryCount'', ''1'']"

definition msg_exists :: "path \<Rightarrow> string" where
  "msg_exists wd = ''Temporary directory '' @ wd
     @ '' already exists. Run with --resume option or remove directory.''"

definition create_workdir :: "builder \<Rightarrow> namespace \<Rightarrow> world \<Rightarrow> (error + unit) \<times> world" where
  "create_workdir self args w =
     (case self_workdir self of
        None \<Rightarrow> (Inl (AttributeError ''_workdir''), w)
      | Some wd \<Rightarrow>
         (if os_path_exists wd w then
            (case flag_and (self_resume self) args ''resume'' of
               Inl e \<Rightarrow> (Inl e, w)
             | Inr True \<Rightarrow> (Inr (), log_info (''Reusing temporary directory: '' @ wd) w)
             | Inr False \<Rightarrow> (Inl (UserError (msg_exists wd)), w))
          else
            (case os_makedirs wd w of
               (Inl e, w1) \<Rightarrow> (Inl e, w1)
             | (Inr _, w1) \<Rightarrow>
                 (Inr (), log_info (''Temporary directory created: '' @ wd) w1))))"

subsection \<open>run\<close>

text \<open>
  Lines 42 to 56: everything before the \<^verbatim>\<open>try\<close>. The result is the command line of
  the pipeline, with the object, the namespace (which \<^verbatim>\<open>vars(args)\<close> aliases, so that
  \<^verbatim>\<open>output_dir\<close> becomes an attribute of it) and the world at that point.
\<close>

definition run_setup ::
  "env \<Rightarrow> builder \<Rightarrow> namespace \<Rightarrow> string list \<Rightarrow> world
     \<Rightarrow> (error + string list) \<times> builder \<times> namespace \<times> world" where
  "run_setup E self args pipeline_command w =
     (case prepare_mount E self w of
        (Inl e, self1, w1) \<Rightarrow> (Inl e, self1, args, w1)
      | (Inr mount, self1, w1) \<Rightarrow>
         (let workdir = path_join mount (''Toil-'' @ self_name self1);
              self2 = self1\<lparr>self_workdir := Some workdir\<rparr>;
              args_dict = args(''output_dir'' \<mapsto> PyStr mount) in
          case str_format E (self_config self2) args_dict of
            Inl e \<Rightarrow> (Inl e, self2, args_dict, w1)
          | Inr text \<Rightarrow>
             (let self3 = self2\<lparr>self_config := dedent E text\<rparr>;
                  config_path = path_join workdir ''config'';
                  command = make_command_prefix self3 (path_join workdir ''jobStore'')
                              config_path workdir @ pipeline_command in
              case flag_and (self_resume self3) args_dict ''resume'' of
                Inl e \<Rightarrow> (Inl e, self3, args_dict, w1)
              | Inr restart \<Rightarrow>
                 (let command' = (if restart then command @ [''--restart''] else command) in
                  case create_workdir self3 args_dict w1 of
                    (Inl e, w2) \<Rightarrow> (Inl e, self3, args_dict, w2)
                  | (Inr _, w2) \<Rightarrow>
                     (case open_write config_path (self_config self3) w2 of
                        (Inl e, w3) \<Rightarrow> (Inl e, self3, args_dict, w3)
                      | (Inr _, w3) \<Rightarrow> (Inr command', self3, args_dict, w3))))))"

definition chown_command :: "nat \<times> nat \<Rightarrow> path \<Rightarrow> string list" where
  "chown_command st m =
     [''chown'', ''-R'', show_nat (fst st) @ '':'' @ show_nat (snd st), m]"

definition msg_kept :: "path \<Rightarrow> string" where
  "msg_kept wd = ''Flag '' @ [CHR 0x22] @ ''--no-clean'' @ [CHR 0x22]
     @ '' was used, therefore '' @ wd @ '' was not deleted.''"

definition msg_terminated :: string where
  "msg_terminated =
     ''Pipeline terminated, changing ownership of output files from root to user.''"

text \<open>Lines 63 to 71: the \<^verbatim>\<open>finally\<close> block.\<close>

definition run_finally :: "env \<Rightarrow> builder \<Rightarrow> namespace \<Rightarrow> world \<Rightarrow> (error + unit) \<times> world" where
  "run_finally E self args w =
     (let w0 = log_info msg_terminated w in
      case self_mount self of
        None \<Rightarrow> (Inl (AttributeError ''_mount''), w0)
      | Some m \<Rightarrow>
         (case os_stat E m w0 of
            (Inl e, w1) \<Rightarrow> (Inl e, w1)
          | (Inr st, w1) \<Rightarrow>
             (case check_call E (chown_command st m) w1 of
                (Inl e, w2) \<Rightarrow> (Inl e, w2)
              | (Inr _, w2) \<Rightarrow>
                 (case flag_and (self_no_clean self) args ''no_clean'' of
                    Inl e \<Rightarrow> (Inl e, w2)
                  | Inr keep \<Rightarrow>
                     (case self_workdir self of
                        None \<Rightarrow> (Inl (AttributeError ''_workdir''), w2)
                      | Some wd \<Rightarrow>
                         (if keep then (Inr (), log_info (msg_kept wd) w2)
                          else shutil_rmtree wd
                                 (log_info (''Cleaning up temporary directory: '' @ wd) w2)))))))"

text \<open>
  Lines 58 to 61: the \<^verbatim>\<open>try\<close> body and its handler. A CalledProcessError of the
  pipeline is printed to standard error and ends there; any other exception stays pending
  while the \<^verbatim>\<open>finally\<close> block runs.
\<close>

definition run_try :: "env \<Rightarrow> string list \<Rightarrow> world \<Rightarrow> error option \<times> world" where
  "run_try E command w =
     (case check_call E command w of
        (Inr _, w1) \<Rightarrow> (None, w1)
      | (Inl e, w1) \<Rightarrow>
         (case e of
            CalledProcessError rc cmd \<Rightarrow> (None, record_event (PrintStderr e) w1)
          | _ \<Rightarrow> (Some e, w1)))"

text \<open>
  Lines 58 to 71: the whole \<^verbatim>\<open>try\<close> statement. An exception of the
  \<^verbatim>\<open>finally\<close> block replaces a pending one; otherwise the pending one is raised again.
\<close>

definition run_pipeline ::
  "env \<Rightarrow> builder \<Rightarrow> namespace \<Rightarrow> string list \<Rightarrow> world \<Rightarrow> (error + unit) \<times> world" where
  "run_pipeline E self args command w =
     (case run_try E command w of
        (pending, w1) \<Rightarrow>
          (case run_finally E self args w1 of
             (Inl e', w2) \<Rightarrow> (Inl e', w2)
           | (Inr _, w2) \<Rightarrow>
               (case pending of None \<Rightarrow> (Inr (), w2) | Some e \<Rightarrow> (Inl e, w2))))"

definition run ::
  "env \<Rightarrow> builder \<Rightarrow> namespace \<Rightarrow> string list \<Rightarrow> world \<Rightarrow> (error + unit) \<times> builder \<times> world" where
  "run E self args pipeline_command w =
     (case run_setup E self args pipeline_command w of
        (Inl e, self', args', w') \<Rightarrow> (Inl e, self', w')
      | (Inr command, self', args', w') \<Rightarrow>
         (case run_pipeline E self' args' command w' of
            (r, w'') \<Rightarrow> (r, self', w'')))"

subsection \<open>Vocabulary of the properties\<close>

text \<open>
  The socket mounts of an inspection result are the mounts whose source contains
  \<^verbatim>\<open>docker.sock\<close>; the candidates for the work mount are the other mounts whose source
  and destination are the same path.
\<close>

definition sock_mounts :: "docker_mount list \<Rightarrow> docker_mount list" where
  "sock_mounts mounts = filter (\<lambda>x. is_sock (Source x)) mounts"

definition work_candidates :: "docker_mount list \<Rightarrow> docker_mount list" where
  "work_candidates mounts = filter (\<lambda>x. \<not> is_sock (Source x) \<and> mirrored x) mounts"

text \<open>
  The working directory that \<^verbatim>\<open>run\<close> derives from the mount, and the object as it
  is once lines 42 to 47 have set the mount, the working directory and the config text.
\<close>

definition workdir_path :: "builder \<Rightarrow> path \<Rightarrow> path" where
  "workdir_path self m = path_join m (''Toil-'' @ self_name self)"

definition config_path :: "builder \<Rightarrow> path \<Rightarrow> path" where
  "config_path self m = path_join (workdir_path self m) ''config''"

definition configured :: "builder \<Rightarrow> path \<Rightarrow> string \<Rightarrow> builder" where
  "configured self m body =
     self\<lparr>self_mount := Some m, self_workdir := Some (workdir_path self m),
          self_config := body\<rparr>"

text \<open>
  Resume (no-clean) is requested when the feature is enabled and the namespace holds a
  true value for the flag.
\<close>

definition requested :: "bool \<Rightarrow> namespace \<Rightarrow> string \<Rightarrow> bool" where
  "requested flag ns k = (flag \<and> (case ns k of None \<Rightarrow> False | Some v \<Rightarrow> truthy v))"

text \<open>
  The two queries of mount resolution, \<^verbatim>\<open>docker ps\<close> and \<^verbatim>\<open>docker inspect\<close> of one
  name. The pipeline's command line (whose second word is \<^verbatim>\<open>run\<close>) and
  \<^verbatim>\<open>chown\<close> are not among them.
\<close>

fun docker_query :: "event \<Rightarrow> bool" where
  "docker_query (Exec cmd) =
     (cmd = name_command \<or> (length cmd = 3 \<and> take 2 cmd = [''docker'', ''inspect'']))"
| "docker_query _ = False"

text \<open>The events that a call added to the trace.\<close>

definition new_events :: "world \<Rightarrow> world \<Rightarrow> event list" where
  "new_events w w' = drop (length (trace w)) (trace w')"

subsection \<open>A concrete scenario\<close>

text \<open>
  A wrapper for a pipeline named \<^verbatim>\<open>toil-rnaseq\<close> whose config template is
  \<^verbatim>\<open>output: {output_dir}\<close>, in a container started with the given mounts. The
  environment answers \<^verbatim>\<open>docker ps\<close> with two container names, lets \<^verbatim>\<open>chown\<close>
  and the pipeline end with the given exit statuses, and has the pipeline leave one
  file behind. Its \<open>str_format\<close> and \<open>dedent\<close> are what Python computes on this
  template.
\<close>

definition sock_mount :: "string \<Rightarrow> docker_mount" where
  "sock_mount dst = \<lparr>Source = ''/var/run/docker.sock'', Destination = dst\<rparr>"

definition bind_mount :: "string \<Rightarrow> string \<Rightarrow> docker_mount" where
  "bind_mount src dst = \<lparr>Source = src, Destination = dst\<rparr>"

definition demo_mounts :: "docker_mount list" where
  "demo_mounts = [sock_mount ''/var/run/docker.sock'', bind_mount ''/data'' ''/data'']"

definition demo_env :: "docker_mount list \<Rightarrow> int \<Rightarrow> int \<Rightarrow> env" where
  "demo_env mounts pipeline_status chown_status =
     \<lparr>exec = (\<lambda>cmd f.
         if cmd = name_command
           then (Exited 0 (''wrapper'' @ [CHR 0x0A] @ ''other'' @ [CHR 0x0A]), f)
         else if cmd = [''docker'', ''inspect'', ''wrapper'']
           then (Exited 0 ''[{...}]'', f)
         else if argv0 cmd = ''chown''
           then (Exited chown_status [], f)
         else (Exited pipeline_status [], f(''/data/out.txt'' \<mapsto> File ''done''))),
      owner = (\<lambda>p. (1000, 1000)),
      json_mounts = (\<lambda>text. Inr mounts),
      str_format = (\<lambda>template ns.
         if template = ''output: {output_dir}''
           then (case ns ''output_dir'' of
                   Some (PyStr s) \<Rightarrow> Inr (''output: '' @ s)
                 | _ \<Rightarrow> Inl (KeyError ''output_dir''))
         else Inr template),
      dedent = (\<lambda>text. text)\<rparr>"

definition demo_self :: builder where
  "demo_self = init ''toil-rnaseq'' ''RNA-seq pipeline'' ''output: {output_dir}'' True True"

definition demo_args :: "bool \<Rightarrow> bool \<Rightarrow> namespace" where
  "demo_args resume_flag no_clean_flag =
     [''resume'' \<mapsto> PyBool resume_flag, ''no_clean'' \<mapsto> PyBool no_clean_flag]"

definition demo_world :: world where
  "demo_world = \<lparr>fs = [''/data'' \<mapsto> Dir], trace = [], logged = []\<rparr>"

definition demo_world_used :: world where
  "demo_world_used =
     \<lparr>fs = [''/data'' \<mapsto> Dir, ''/data/Toil-toil-rnaseq'' \<mapsto> Dir], trace = [], logged = []\<rparr>"

definition demo_pipeline :: "string list" where
  "demo_pipeline = [''--sample'', ''s1'']"

definition demo_command :: "string list" where
  "demo_command =
     [''toil-rnaseq'', ''run'', ''/data/Toil-toil-rnaseq/jobStore'',
      ''--config'', ''/data/Toil-toil-rnaseq/config'',
      ''--workDir'', ''/data/Toil-toil-rnaseq'',
      ''--retryCount'', ''1'', ''--sample'', ''s1'']"







section \<open>Mount resolution\<close>

lemma two_elements: "length xs = 2 \<Longrightarrow> \<exists>a b. xs = [a, b]"
  by (cases xs; cases "tl xs"; auto)

lemma mirror_filter_commute:
  "filter (\<lambda>x. \<not> is_sock x) (map Source (filter mirrored M)) = map Source (work_candidates M)"
  by (induction M) (auto simp: work_candidates_def)

lemma select_work_mount_unique:
  assumes "length (sock_mounts M) = 1" and "list_all mirrored (sock_mounts M)"
    and "work_candidates M = [m]"
  shows "select_work_mount M = Inr (Source m)"
proof (cases "length M = 2")
  case True
  then obtain a b where M: "M = [a, b]"
    using two_elements by blast
  show ?thesis
    using assms unfolding M
    by (auto simp: select_work_mount_def require_def sock_mounts_def work_candidates_def
             split: if_splits)
next
  case False
  with assms show ?thesis
    by (simp add: select_work_mount_def require_def sock_mounts_def Let_def
                  mirror_filter_commute)
qed

lemma select_work_mount_ambiguous:
  assumes "length (work_candidates M) \<noteq> 1"
  shows "\<exists>msg. select_work_mount M = Inl (ConfigurationError msg)"
proof (cases "length (sock_mounts M) = 1")
  case False
  then show ?thesis
    by (simp add: select_work_mount_def require_def sock_mounts_def Let_def)
next
  case sock: True
  show ?thesis
  proof (cases "length M = 2")
    case True
    then obtain a b where M: "M = [a, b]"
      using two_elements by blast
    show ?thesis
      using assms sock unfolding M
      by (auto simp: select_work_mount_def require_def sock_mounts_def work_candidates_def
               split: if_splits)
  next
    case False
    with assms sock show ?thesis
      by (simp add: select_work_mount_def require_def sock_mounts_def Let_def
                    mirror_filter_commute)
  qed
qed

lemma prepare_mount_result:
  "fst (container_mounts E w) = Inr M \<Longrightarrow> fst (prepare_mount E self w) = select_work_mount M"
  by (cases "container_mounts E w") (auto simp: prepare_mount_def split: sum.splits)

lemma prepare_mount_Inr:
  assumes "prepare_mount E self w = (Inr m, self1, w1)"
  shows "self1 = self\<lparr>self_mount := Some m\<rparr>"
  using assms by (auto simp: prepare_mount_def split: prod.splits sum.splits)

lemma prepare_mount_object:
  "fst (snd (prepare_mount E self w)) =
     (case fst (prepare_mount E self w) of Inl e \<Rightarrow> self | Inr m \<Rightarrow> self\<lparr>self_mount := Some m\<rparr>)"
  by (cases "container_mounts E w")
     (auto simp: prepare_mount_def split: sum.splits)

lemma prepare_mount_identity:
  "self_name (fst (snd (prepare_mount E self w))) = self_name self"
  "self_desc (fst (snd (prepare_mount E self w))) = self_desc self"
  "self_config (fst (snd (prepare_mount E self w))) = self_config self"
  "self_no_clean (fst (snd (prepare_mount E self w))) = self_no_clean self"
  "self_resume (fst (snd (prepare_mount E self w))) = self_resume self"
  by (simp_all add: prepare_mount_object split: sum.splits)

lemma check_output_trace:
  "trace (snd (check_output E cmd w)) = trace w @ [Exec cmd]"
  by (simp add: check_output_def record_event_def split: prod.splits)

lemma container_mounts_events:
  "list_all docker_query (new_events w (snd (container_mounts E w)))"
proof (cases "check_output E name_command w")
  case (Pair r w1)
  then have t1: "trace w1 = trace w @ [Exec name_command]"
    using check_output_trace [of E name_command w] by simp
  show ?thesis
  proof (cases r)
    case (Inl e)
    with Pair t1 show ?thesis
      by (simp add: container_mounts_def new_events_def)
  next
    case (Inr out)
    obtain r2 w2 where c2: "check_output E [''docker'', ''inspect'', first_line out] w1 = (r2, w2)"
      by (cases "check_output E [''docker'', ''inspect'', first_line out] w1") auto
    then have t2: "trace w2 = trace w1 @ [Exec [''docker'', ''inspect'', first_line out]]"
      using check_output_trace [of E "[''docker'', ''inspect'', first_line out]" w1] by simp
    show ?thesis
      using Pair Inr c2 t1 t2
      by (cases r2) (simp_all add: container_mounts_def new_events_def)
  qed
qed

lemma prepare_mount_events:
  "list_all docker_query (new_events w (snd (snd (prepare_mount E self w))))"
  using container_mounts_events [of w E]
  by (cases "container_mounts E w")
     (auto simp: prepare_mount_def new_events_def log_info_def split: sum.splits)

section \<open>The steps of run\<close>

lemma run_setup_Inr:
  assumes "run_setup E self args pc w = (Inr command, self', args', w')"
  obtains m w1 body restart w2 where
    "prepare_mount E self w = (Inr m, self\<lparr>self_mount := Some m\<rparr>, w1)"
    "str_format E (self_config self) (args(''output_dir'' \<mapsto> PyStr m)) = Inr body"
    "self' = configured self m (dedent E body)"
    "args' = args(''output_dir'' \<mapsto> PyStr m)"
    "flag_and (self_resume self) args' ''resume'' = Inr restart"
    "command = make_command_prefix self (path_join (workdir_path self m) ''jobStore'')
                 (config_path self m) (workdir_path self m)
               @ pc @ (if restart then [''--restart''] else [])"
    "create_workdir self' args' w1 = (Inr (), w2)"
    "open_write (config_path self m) (dedent E body) w2 = (Inr (), w')"
proof -
  obtain r self1 w1 where pm: "prepare_mount E self w = (r, self1, w1)"
    by (cases "prepare_mount E self w") auto
  from assms pm obtain m where r: "r = Inr m"
    by (cases r) (auto simp: run_setup_def)
  have s1: "self1 = self\<lparr>self_mount := Some m\<rparr>"
    using pm r prepare_mount_Inr by blast
  show ?thesis
    using assms pm r s1 that [of m w1]
    by (auto simp: run_setup_def Let_def workdir_path_def config_path_def configured_def
                   make_command_prefix_def
             split: sum.splits prod.splits if_splits)
qed

lemma check_call_eq:
  "exec E cmd (fs w) = (st, f) \<Longrightarrow>
   check_call E cmd w =
     (map_sum id (\<lambda>_. ()) (proc_result cmd st), w\<lparr>fs := f, trace := trace w @ [Exec cmd]\<rparr>)"
  by (cases "proc_result cmd st") (simp_all add: check_call_def check_output_def record_event_def)

lemma check_call_traceD:
  "check_call E cmd w = (r, w') \<Longrightarrow> trace w' = trace w @ [Exec cmd]"
  by (cases "exec E cmd (fs w)") (auto simp: check_call_eq)

lemma run_try_trace:
  "\<exists>evs. trace (snd (run_try E cmd w)) = trace w @ Exec cmd # evs"
proof (cases "check_call E cmd w")
  case (Pair r w1)
  then have t: "trace w1 = trace w @ [Exec cmd]"
    by (rule check_call_traceD)
  show ?thesis
  proof (cases r)
    case (Inl e)
    with Pair t show ?thesis
      by (cases e) (simp_all add: run_try_def record_event_def)
  next
    case (Inr u)
    with Pair t show ?thesis
      by (simp add: run_try_def)
  qed
qed

lemma run_finally_eq:
  assumes "self_mount self = Some m" and "self_workdir self = Some wd"
    and "fs w m \<noteq> None"
    and "exec E (chown_command (owner E m) m) (fs w) = (st, f)"
  shows "run_finally E self args w =
     (let w2 = w\<lparr>fs := f, trace := trace w @ [Stat m, Exec (chown_command (owner E m) m)],
                  logged := logged w @ [msg_terminated]\<rparr> in
      case proc_result (chown_command (owner E m) m) st of
        Inl e \<Rightarrow> (Inl e, w2)
      | Inr out \<Rightarrow>
         (case flag_and (self_no_clean self) args ''no_clean'' of
            Inl e \<Rightarrow> (Inl e, w2)
          | Inr keep \<Rightarrow>
             (if keep then (Inr (), log_info (msg_kept wd) w2)
              else shutil_rmtree wd
                     (log_info (''Cleaning up temporary directory: '' @ wd) w2))))"
proof -
  let ?w0 = "log_info msg_terminated w"
  have st: "os_stat E m ?w0 = (Inr (owner E m), record_event (Stat m) ?w0)"
    using assms(3) by (auto simp: os_stat_def log_info_def)
  have ex: "exec E (chown_command (owner E m) m) (fs (record_event (Stat m) ?w0)) = (st, f)"
    using assms(4) by (simp add: record_event_def log_info_def)
  show ?thesis
    unfolding run_finally_def
    using assms(1,2)
    apply (simp add: Let_def st check_call_eq [OF ex] split: sum.splits)
    apply (simp add: record_event_def log_info_def)
    done
qed

lemma run_finally_no_stat:
  assumes "self_mount self = Some m" and "fs w m = None"
  shows "run_finally E self args w =
     (Inl (OSError m), w\<lparr>trace := trace w @ [Stat m], logged := logged w @ [msg_terminated]\<rparr>)"
  using assms by (simp add: run_finally_def os_stat_def log_info_def record_event_def)

lemma run_finally_trace:
  assumes "self_mount self = Some m" and "self_workdir self = Some wd"
  shows "\<exists>evs. trace (snd (run_finally E self args w)) = trace w @ evs"
proof (cases "fs w m")
  case None
  with assms show ?thesis by (simp add: run_finally_no_stat)
next
  case (Some n)
  obtain st f where ex: "exec E (chown_command (owner E m) m) (fs w) = (st, f)"
    by (cases "exec E (chown_command (owner E m) m) (fs w)") auto
  have nn: "fs w m \<noteq> None" using Some by simp
  show ?thesis
    unfolding run_finally_eq [OF assms nn ex]
    by (auto simp: Let_def log_info_def shutil_rmtree_def record_event_def
             split: sum.splits option.splits node.splits)
qed

lemma run_after_setup:
  "run_setup E self args pc w = (Inr command, self', args', w1) \<Longrightarrow>
   run E self args pc w =
     (fst (run_pipeline E self' args' command w1), self', snd (run_pipeline E self' args' command w1))"
  by (simp add: run_def case_prod_beta)

lemma configured_fields:
  "self_mount (configured self m body) = Some m"
  "self_workdir (configured self m body) = Some (workdir_path self m)"
  "self_config (configured self m body) = body"
  "self_name (configured self m body) = self_name self"
  "self_desc (configured self m body) = self_desc self"
  "self_no_clean (configured self m body) = self_no_clean self"
  "self_resume (configured self m body) = self_resume self"
  by (simp_all add: configured_def)


lemma flag_and_Inr:
  "flag_and flag ns k = Inr b \<Longrightarrow> b = requested flag ns k"
  by (auto simp: flag_and_def requested_def getattr_def split: option.splits if_splits)

lemma run_pipeline_trace:
  assumes "self_mount s = Some m" and "self_workdir s = Some wd"
  shows "\<exists>evs. trace (snd (run_pipeline E s a c w)) = trace w @ Exec c # evs"
proof -
  obtain pending w1 where t: "run_try E c w = (pending, w1)"
    by (cases "run_try E c w") auto
  obtain evs where 1: "trace w1 = trace w @ Exec c # evs"
    using run_try_trace [of E c w] t by auto
  obtain evs' where 2: "trace (snd (run_finally E s a w1)) = trace w1 @ evs'"
    using run_finally_trace [OF assms] by blast
  show ?thesis
    using t 1 2
    by (cases "run_finally E s a w1")
       (auto simp: run_pipeline_def split: sum.splits option.splits)
qed




lemma run_setup_object:
  assumes "run_setup E self args pc w = (Inr command, self', args', w1)"
    and "fst (prepare_mount E self w) = Inr m"
  shows "\<exists>body. str_format E (self_config self) (args(''output_dir'' \<mapsto> PyStr m)) = Inr body
           \<and> self' = configured self m (dedent E body)"
    and "args' = args(''output_dir'' \<mapsto> PyStr m)"
    and "\<exists>restart. command =
           make_command_prefix self (path_join (workdir_path self m) ''jobStore'')
             (config_path self m) (workdir_path self m)
           @ pc @ (if restart then [''--restart''] else [])"
proof -
  from assms(1) obtain m' w1' body restart w2 where
    pm: "prepare_mount E self w = (Inr m', self\<lparr>self_mount := Some m'\<rparr>, w1')" and
    fmt: "str_format E (self_config self) (args(''output_dir'' \<mapsto> PyStr m')) = Inr body" and
    self': "self' = configured self m' (dedent E body)" and
    args': "args' = args(''output_dir'' \<mapsto> PyStr m')" and
    command: "command = make_command_prefix self (path_join (workdir_path self m') ''jobStore'')
                 (config_path self m') (workdir_path self m')
               @ pc @ (if restart then [''--restart''] else [])"
    by (rule run_setup_Inr)
  have m: "m' = m"
    using pm assms(2) by simp
  show "\<exists>body. str_format E (self_config self) (args(''output_dir'' \<mapsto> PyStr m)) = Inr body
           \<and> self' = configured self m (dedent E body)"
    using fmt self' m by blast
  show "args' = args(''output_dir'' \<mapsto> PyStr m)"
    using args' m by simp
  show "\<exists>restart. command =
           make_command_prefix self (path_join (workdir_path self m) ''jobStore'')
             (config_path self m) (workdir_path self m)
           @ pc @ (if restart then [''--restart''] else [])"
    using command m by blast
qed


lemma remove_tree_frame:
  "\<not> in_tree d q \<Longrightarrow> remove_tree d f q = f q"
  "in_tree d q \<Longrightarrow> remove_tree d f q = None"
  by (simp_all add: remove_tree_def)

lemma run_try_fs:
  "fs (snd (run_try E cmd w)) = snd (exec E cmd (fs w))"
  by (cases "exec E cmd (fs w)"; cases "proc_result cmd (fst (exec E cmd (fs w)))")
     (auto simp: run_try_def check_call_eq record_event_def split: error.splits)

lemma run_stops_at_mount:
  assumes "fst (prepare_mount E self w) = Inl e"
  shows "fst (run E self args pc w) = Inl e"
    and "snd (snd (run E self args pc w)) = snd (snd (prepare_mount E self w))"
  using assms
  by (cases "prepare_mount E self w"; simp add: run_def run_setup_def)+

lemma run_stops_at_workdir:
  assumes "fst (prepare_mount E self w) = Inr m"
    and "fs (snd (snd (prepare_mount E self w))) (workdir_path self m) \<noteq> None"
    and "\<not> requested (self_resume self) args ''resume''"
  shows "\<exists>e. fst (run E self args pc w) = Inl e"
    and "snd (snd (run E self args pc w)) = snd (snd (prepare_mount E self w))"
proof -
  obtain self1 w1 where pm: "prepare_mount E self w = (Inr m, self1, w1)"
    using assms(1) by (cases "prepare_mount E self w") auto
  have s1: "self1 = self\<lparr>self_mount := Some m\<rparr>"
    using pm by (rule prepare_mount_Inr)
  have ex: "os_path_exists (workdir_path self m) w1"
    using assms(2) pm by (simp add: os_path_exists_def)
  have nr: "flag_and (self_resume self) (args(''output_dir'' \<mapsto> PyStr m)) ''resume'' \<noteq> Inr True"
    using assms(3) by (auto simp: flag_and_def requested_def getattr_def split: option.splits)
  have "(\<exists>e. fst (run E self args pc w) = Inl e) \<and> snd (snd (run E self args pc w)) = w1"
    using ex nr
    by (auto simp: run_def run_setup_def pm s1 Let_def create_workdir_def workdir_path_def
             split: sum.splits bool.splits)
  then show "\<exists>e. fst (run E self args pc w) = Inl e"
    and "snd (snd (run E self args pc w)) = snd (snd (prepare_mount E self w))"
    using pm by simp_all
qed

lemma open_write_Inr:
  assumes "open_write p body w = (Inr u, w')"
  shows "trace w' = trace w @ [OpenWrite p body]" and "fs w' p = Some (File body)"
  using assms
  by (auto simp: open_write_def record_event_def split: option.splits node.splits if_splits)

lemma literal_paths:
  assumes "m \<noteq> []" and "last m \<noteq> CHR ''/''"
    and "self_name self = [] \<or> last (self_name self) \<noteq> CHR ''/''"
  shows "workdir_path self m = m @ ''/Toil-'' @ self_name self"
    and "config_path self m = m @ ''/Toil-'' @ self_name self @ ''/config''"
  using assms by (auto simp: workdir_path_def config_path_def path_join_def)



lemma run_object:
  "fst (snd (run E self args pc w)) = fst (snd (run_setup E self args pc w))"
  by (cases "run_setup E self args pc w"; cases "fst (run_setup E self args pc w)")
     (auto simp: run_def split: prod.splits)

lemma run_setup_identity:
  "self_name (fst (snd (run_setup E self args pc w))) = self_name self"
  "self_desc (fst (snd (run_setup E self args pc w))) = self_desc self"
  "self_no_clean (fst (snd (run_setup E self args pc w))) = self_no_clean self"
  "self_resume (fst (snd (run_setup E self args pc w))) = self_resume self"
  using prepare_mount_identity [of E self w]
  by (cases "prepare_mount E self w";
      auto simp: run_setup_def Let_def split: sum.splits prod.splits)+

lemma run_setup_config:
  assumes "fst (prepare_mount E self w) = Inr m"
    and "str_format E (self_config self) (args(''output_dir'' \<mapsto> PyStr m)) = Inr body"
  shows "self_config (fst (snd (run_setup E self args pc w))) = dedent E body"
proof -
  obtain self1 w1 where pm: "prepare_mount E self w = (Inr m, self1, w1)"
    using assms(1) by (cases "prepare_mount E self w") auto
  have s1: "self1 = self\<lparr>self_mount := Some m\<rparr>"
    using pm by (rule prepare_mount_Inr)
  show ?thesis
    by (auto simp: run_setup_def pm s1 assms(2) Let_def split: sum.splits prod.splits)
qed














section \<open>The scenario, evaluated\<close>

lemmas demo_defs =
  demo_env_def demo_mounts_def demo_self_def demo_args_def demo_world_def demo_world_used_def
  sock_mount_def bind_mount_def init_def name_command_def first_line_def

lemmas os_defs =
  check_output_def check_call_def record_event_def log_info_def os_path_exists_def
  os_makedirs_def open_write_def os_stat_def shutil_rmtree_def path_join_def
  makedirs.simps makedirs_parts_def mkdir_def path_split_def rstrip_slash_def

lemma demo_container_mounts:
  "fst (container_mounts (demo_env M p c) demo_world) = Inr M"
  by (simp add: container_mounts_def demo_defs os_defs)

lemmas mount_eval =
  sock_mounts_def work_candidates_def is_sock_def mirrored_def sublist_code(3)
  select_work_mount_def require_def

lemmas run_eval =
  run_def run_setup_def run_pipeline_def run_try_def run_finally_def prepare_mount_def
  container_mounts_def create_workdir_def make_command_prefix_def chown_command_def
  flag_and_def getattr_def workdir_path_def config_path_def requested_def new_events_def
  configured_def remove_tree_def in_tree_def

lemma demo_chown: "chown_command (1000, 1000) ''/data'' = [''chown'', ''-R'', ''1000:1000'', ''/data'']"
  by (simp add: chown_command_def)

lemma demo_setup_resume:
  "fst (run_setup (demo_env demo_mounts p c) demo_self (demo_args True False)
         [''--sample'', ''s1''] demo_world_used)
   = Inr [''toil-rnaseq'', ''run'', ''/data/Toil-toil-rnaseq/jobStore'',
      ''--config'', ''/data/Toil-toil-rnaseq/config'', ''--workDir'',
      ''/data/Toil-toil-rnaseq'', ''--retryCount'', ''1'', ''--sample'',
      ''s1'', ''--restart'']"
  by (simp add: run_eval demo_defs os_defs mount_eval Let_def)

lemma demo_prepare_mount:
  "fst (prepare_mount (demo_env demo_mounts p c) demo_self w) = Inr ''/data''"
  by (simp add: run_eval demo_defs os_defs mount_eval Let_def)

lemma demo_paths:
  "workdir_path demo_self ''/data'' = ''/data/Toil-toil-rnaseq''"
  "config_path demo_self ''/data'' = ''/data/Toil-toil-rnaseq/config''"
  "path_join (workdir_path demo_self ''/data'') ''jobStore'' = ''/data/Toil-toil-rnaseq/jobStore''"
  "self_name demo_self = ''toil-rnaseq''"
  "self_resume demo_self"
  "self_no_clean demo_self"
  by (simp_all add: workdir_path_def config_path_def path_join_def demo_self_def init_def)

lemma tuple4:
  "fst x = a \<Longrightarrow> x = (a, fst (snd x), fst (snd (snd x)), snd (snd (snd x)))"
  by (simp add: prod_eq_iff)

lemma pair_of:
  "x = (fst x, snd x)"
  by simp


lemma demo_setup_fresh:
  "fst (run_setup (demo_env demo_mounts p c) demo_self (demo_args False nc)
         demo_pipeline demo_world) = Inr demo_command"
  by (simp add: run_eval demo_defs os_defs mount_eval Let_def demo_pipeline_def demo_command_def)

lemma demo_setup_fresh_fs:
  "fs (snd (snd (snd (run_setup (demo_env demo_mounts p c) demo_self (demo_args False nc)
         demo_pipeline demo_world))))
   = [''/data'' \<mapsto> Dir, ''/data/Toil-toil-rnaseq'' \<mapsto> Dir,
      ''/data/Toil-toil-rnaseq/config'' \<mapsto> File ''output: /data'']"
  by (simp add: run_eval demo_defs os_defs mount_eval Let_def demo_pipeline_def demo_command_def)

lemma demo_exec_pipeline:
  "exec (demo_env demo_mounts p c) demo_command f
     = (Exited p [], f(''/data/out.txt'' \<mapsto> File ''done''))"
  by (simp add: demo_env_def demo_command_def name_command_def)

lemma demo_exec_chown:
  "exec (demo_env demo_mounts p c) [''chown'', ''-R'', ''1000:1000'', ''/data''] f
     = (Exited c [], f)"
  by (simp add: demo_env_def name_command_def)

lemma demo_args_lookup:
  "demo_args r n ''resume'' = Some (PyBool r)"
  "demo_args r n ''no_clean'' = Some (PyBool n)"
  by (simp_all add: demo_args_def)

lemma demo_owner: "owner (demo_env demo_mounts p c) x = (1000, 1000)"
  by (simp add: demo_env_def)

lemma tuple3:
  "fst x = a \<Longrightarrow> x = (a, fst (snd x), snd (snd x))"
  by (simp add: prod_eq_iff)

lemma demo_try_fs:
  "fs (snd (run_try (demo_env demo_mounts p c) demo_command
         (snd (snd (snd (run_setup (demo_env demo_mounts p c) demo_self (demo_args False nc)
                           demo_pipeline demo_world))))))
   = [''/data'' \<mapsto> Dir, ''/data/Toil-toil-rnaseq'' \<mapsto> Dir,
      ''/data/Toil-toil-rnaseq/config'' \<mapsto> File ''output: /data'',
      ''/data/out.txt'' \<mapsto> File ''done'']"
  by (simp add: run_try_fs demo_exec_pipeline demo_setup_fresh_fs)

lemma demo_run_completes:
  "fst (run (demo_env demo_mounts 0 0) demo_self (demo_args False nc)
         demo_pipeline demo_world) = Inr ()"
  by (cases nc)
     (simp_all add: run_eval demo_defs os_defs mount_eval Let_def demo_pipeline_def)

lemma demo_in_tree:
  "in_tree ''/data/Toil-toil-rnaseq'' ''/data/Toil-toil-rnaseq''"
  "in_tree ''/data/Toil-toil-rnaseq'' ''/data/Toil-toil-rnaseq/config''"
  "\<not> in_tree ''/data/Toil-toil-rnaseq'' ''/data/out.txt''"
  "\<not> in_tree ''/data/Toil-toil-rnaseq'' ''/data''"
  by (simp_all add: in_tree_def path_join_def)

lemma demo_prepare_mount_world:
  "snd (snd (prepare_mount (demo_env demo_mounts p c) demo_self w))
     = w\<lparr>trace := trace w @ [Exec name_command, Exec [''docker'', ''inspect'', ''wrapper'']],
          logged := logged w @ [''The work mount is: /data'']\<rparr>"
  by (simp add: run_eval demo_env_def demo_mounts_def sock_mount_def bind_mount_def
                first_line_def os_defs mount_eval Let_def)

lemma demo_no_mount:
  "prepare_mount (demo_env [sock_mount ''/var/run/docker.sock''] p c) demo_self w
     = (Inl (ConfigurationError msg_mirror), demo_self,
        w\<lparr>trace := trace w @ [Exec name_command, Exec [''docker'', ''inspect'', ''wrapper'']]\<rparr>)"
  by (simp add: run_eval demo_env_def demo_mounts_def sock_mount_def bind_mount_def
                first_line_def os_defs mount_eval Let_def)

lemma demo_format:
  "str_format (demo_env M p c) (self_config demo_self)
     ((demo_args r n)(''output_dir'' \<mapsto> PyStr ''/data'')) = Inr ''output: /data''"
  by (simp add: demo_env_def demo_self_def init_def)

lemma demo_dedent: "dedent (demo_env M p c) x = x"
  by (simp add: demo_env_def)

lemma demo_join:
  "path_join ''/data'' (''Toil-'' @ self_name demo_self) = ''/data/Toil-toil-rnaseq''"
  "path_join ''/data/Toil-toil-rnaseq'' ''config'' = ''/data/Toil-toil-rnaseq/config''"
  by (simp_all add: path_join_def demo_self_def init_def)






section \<open>Properties\<close>

subsection \<open>The pipeline fails\<close>




subsection \<open>The command line of the pipeline\<close>

text \<open>
  C2, as amended. When resume is enabled and requested and \<^verbatim>\<open>run\<close> reaches the
  pipeline, the command line of the child process is the name, \<^verbatim>\<open>run\<close>, the job
  store path, \<^verbatim>\<open>--config\<close> and the config path, \<^verbatim>\<open>--workDir\<close> and the working
  directory, \<^verbatim>\<open>--retryCount 1\<close>, then the pipeline command of the caller, and
  \<^verbatim>\<open>--restart\<close> as its last word; it is the first process started after the setup.
\<close>

theorem run_command_restart_last:
  assumes "run_setup E self args pc w = (Inr command, self', args', w')"
    and "fst (prepare_mount E self w) = Inr m"
    and "requested (self_resume self) args ''resume''"
  shows "command =
           [self_name self, ''run'', path_join (workdir_path self m) ''jobStore'',
            ''--config'', config_path self m,
            ''--workDir'', workdir_path self m,
            ''--retryCount'', ''1''] @ pc @ [''--restart'']
       \<and> (\<exists>rest. trace (snd (snd (run E self args pc w))) = trace w' @ Exec command # rest)"
proof -
  from assms(1) obtain m' w1 body restart w2 where
    pm: "prepare_mount E self w = (Inr m', self\<lparr>self_mount := Some m'\<rparr>, w1)" and
    self': "self' = configured self m' (dedent E body)" and
    args': "args' = args(''output_dir'' \<mapsto> PyStr m')" and
    restart: "flag_and (self_resume self) args' ''resume'' = Inr restart" and
    command: "command = make_command_prefix self (path_join (workdir_path self m') ''jobStore'')
                 (config_path self m') (workdir_path self m')
               @ pc @ (if restart then [''--restart''] else [])"
    by (rule run_setup_Inr)
  have m: "m' = m"
    using pm assms(2) by simp
  have "restart = requested (self_resume self) args' ''resume''"
    using restart by (rule flag_and_Inr)
  then have "restart"
    using assms(3) by (simp add: args' requested_def)
  then have 1: "command =
           [self_name self, ''run'', path_join (workdir_path self m) ''jobStore'',
            ''--config'', config_path self m,
            ''--workDir'', workdir_path self m,
            ''--retryCount'', ''1''] @ pc @ [''--restart'']"
    using command m by (simp add: make_command_prefix_def)
  have "\<exists>evs. trace (snd (run_pipeline E self' args' command w')) = trace w' @ Exec command # evs"
    by (rule run_pipeline_trace [of self' m' "workdir_path self m'"])
       (simp_all add: self' configured_fields)
  then have 2: "\<exists>rest. trace (snd (snd (run E self args pc w))) = trace w' @ Exec command # rest"
    by (simp add: run_after_setup [OF assms(1)])
  from 1 2 show ?thesis by blast
qed

theorem run_command_restart_last_witness:
  "fst (run_setup (demo_env demo_mounts 0 0) demo_self (demo_args True False)
         [''--sample'', ''s1''] demo_world_used)
   = Inr [''toil-rnaseq'', ''run'', ''/data/Toil-toil-rnaseq/jobStore'',
          ''--config'', ''/data/Toil-toil-rnaseq/config'',
          ''--workDir'', ''/data/Toil-toil-rnaseq'',
          ''--retryCount'', ''1'', ''--sample'', ''s1'', ''--restart'']
   \<and> fst (prepare_mount (demo_env demo_mounts 0 0) demo_self demo_world_used) = Inr ''/data''
   \<and> requested (self_resume demo_self) (demo_args True False) ''resume''
   \<and> (\<exists>rest.
         trace (snd (snd (run (demo_env demo_mounts 0 0) demo_self (demo_args True False)
                            [''--sample'', ''s1''] demo_world_used)))
         = trace (snd (snd (snd (run_setup (demo_env demo_mounts 0 0) demo_self
                                   (demo_args True False) [''--sample'', ''s1'']
                                   demo_world_used))))
           @ Exec [''toil-rnaseq'', ''run'', ''/data/Toil-toil-rnaseq/jobStore'',
                   ''--config'', ''/data/Toil-toil-rnaseq/config'',
                   ''--workDir'', ''/data/Toil-toil-rnaseq'',
                   ''--retryCount'', ''1'', ''--sample'', ''s1'', ''--restart'']
           # rest)"
proof -
  have rq: "requested (self_resume demo_self) (demo_args True False) ''resume''"
    by (simp add: requested_def demo_defs)
  note claim = run_command_restart_last
         [OF tuple4 [OF demo_setup_resume [of 0 0]] demo_prepare_mount [of 0 0] rq]
  have tr: "\<exists>rest.
         trace (snd (snd (run (demo_env demo_mounts 0 0) demo_self (demo_args True False)
                            [''--sample'', ''s1''] demo_world_used)))
         = trace (snd (snd (snd (run_setup (demo_env demo_mounts 0 0) demo_self
                                   (demo_args True False) [''--sample'', ''s1'']
                                   demo_world_used))))
           @ Exec [''toil-rnaseq'', ''run'', ''/data/Toil-toil-rnaseq/jobStore'',
                   ''--config'', ''/data/Toil-toil-rnaseq/config'',
                   ''--workDir'', ''/data/Toil-toil-rnaseq'',
                   ''--retryCount'', ''1'', ''--sample'', ''s1'', ''--restart'']
           # rest"
    using claim by (simp add: demo_paths path_join_def)
  show ?thesis
    apply (intro conjI)
       apply (rule demo_setup_resume)
      apply (rule demo_prepare_mount)
     apply (rule rq)
    apply (rule tr)
    done
qed

text \<open>
  C2, as stated, fails: with resume requested and the pipeline command
  \<^verbatim>\<open>--sample s1\<close>, the command line with \<^verbatim>\<open>--restart\<close> before the pipeline
  command is neither what the setup builds nor what is started; \<^verbatim>\<open>--restart\<close> comes
  last (line 53 appends it).
\<close>

theorem run_restart_after_command:
  "requested (self_resume demo_self) (demo_args True False) ''resume''
   \<and> fst (run_setup (demo_env demo_mounts 0 0) demo_self (demo_args True False)
           [''--sample'', ''s1''] demo_world_used)
     \<noteq> Inr ([''toil-rnaseq'', ''run'', ''/data/Toil-toil-rnaseq/jobStore'',
              ''--config'', ''/data/Toil-toil-rnaseq/config'',
              ''--workDir'', ''/data/Toil-toil-rnaseq'',
              ''--retryCount'', ''1''] @ [''--restart''] @ [''--sample'', ''s1''])
   \<and> Exec ([''toil-rnaseq'', ''run'', ''/data/Toil-toil-rnaseq/jobStore'',
            ''--config'', ''/data/Toil-toil-rnaseq/config'',
            ''--workDir'', ''/data/Toil-toil-rnaseq'',
            ''--retryCount'', ''1''] @ [''--restart''] @ [''--sample'', ''s1''])
     \<notin> set (trace (snd (snd (run (demo_env demo_mounts 0 0) demo_self (demo_args True False)
                                [''--sample'', ''s1''] demo_world_used))))
   \<and> Exec ([''toil-rnaseq'', ''run'', ''/data/Toil-toil-rnaseq/jobStore'',
            ''--config'', ''/data/Toil-toil-rnaseq/config'',
            ''--workDir'', ''/data/Toil-toil-rnaseq'',
            ''--retryCount'', ''1''] @ [''--sample'', ''s1''] @ [''--restart''])
     \<in> set (trace (snd (snd (run (demo_env demo_mounts 0 0) demo_self (demo_args True False)
                                [''--sample'', ''s1''] demo_world_used))))"
  by (simp add: run_eval demo_defs os_defs mount_eval Let_def)

subsection \<open>The work mount\<close>

text \<open>
  C3, as amended. When the inspection result has exactly one socket mount, itself with
  equal source and destination, and exactly one other mount with equal source and
  destination, mount resolution returns the source of that mount. When the number of
  such other mounts is zero or more than one, it raises a configuration error.
\<close>

theorem prepare_mount_resolves:
  assumes "fst (container_mounts E w) = Inr M"
  shows "(length (sock_mounts M) = 1 \<and> list_all mirrored (sock_mounts M)
            \<and> work_candidates M = [m]
          \<longrightarrow> fst (prepare_mount E self w) = Inr (Source m))
       \<and> (length (work_candidates M) \<noteq> 1
          \<longrightarrow> (\<exists>msg. fst (prepare_mount E self w) = Inl (ConfigurationError msg)))"
  using select_work_mount_unique [of M m] select_work_mount_ambiguous [of M]
  by (simp add: prepare_mount_result [OF assms])

theorem prepare_mount_resolves_witness:
  "fst (container_mounts (demo_env demo_mounts 0 0) demo_world) = Inr demo_mounts
   \<and> length (sock_mounts demo_mounts) = 1
   \<and> list_all mirrored (sock_mounts demo_mounts)
   \<and> work_candidates demo_mounts = [bind_mount ''/data'' ''/data'']
   \<and> fst (prepare_mount (demo_env demo_mounts 0 0) demo_self demo_world) = Inr ''/data''
   \<and> fst (container_mounts (demo_env [sock_mount ''/var/run/docker.sock''] 0 0) demo_world)
       = Inr [sock_mount ''/var/run/docker.sock'']
   \<and> length (work_candidates [sock_mount ''/var/run/docker.sock'']) \<noteq> 1
   \<and> (\<exists>msg. fst (prepare_mount (demo_env [sock_mount ''/var/run/docker.sock''] 0 0)
                  demo_self demo_world) = Inl (ConfigurationError msg))"
  using prepare_mount_resolves [OF demo_container_mounts,
          of demo_mounts "bind_mount ''/data'' ''/data''" 0 0 demo_self]
        prepare_mount_resolves [OF demo_container_mounts,
          of "[sock_mount ''/var/run/docker.sock'']" "bind_mount ''/data'' ''/data''" 0 0
             demo_self]
  by (simp add: demo_container_mounts demo_mounts_def sock_mount_def bind_mount_def mount_eval)

text \<open>
  C3, as stated, fails on a container with two mounts whose socket is mounted at another
  path: there is one socket mount and one other mount with equal source and destination,
  and mount resolution raises a configuration error (the check of line 109).
\<close>

theorem prepare_mount_socket_elsewhere:
  "length (sock_mounts [sock_mount ''/docker.sock'', bind_mount ''/data'' ''/data'']) = 1
   \<and> work_candidates [sock_mount ''/docker.sock'', bind_mount ''/data'' ''/data'']
       = [bind_mount ''/data'' ''/data'']
   \<and> fst (container_mounts
            (demo_env [sock_mount ''/docker.sock'', bind_mount ''/data'' ''/data''] 0 0)
            demo_world)
       = Inr [sock_mount ''/docker.sock'', bind_mount ''/data'' ''/data'']
   \<and> fst (prepare_mount
            (demo_env [sock_mount ''/docker.sock'', bind_mount ''/data'' ''/data''] 0 0)
            demo_self demo_world)
       = Inl (ConfigurationError msg_two)"
  by (simp add: prepare_mount_result [OF demo_container_mounts] demo_container_mounts
                sock_mount_def bind_mount_def mount_eval)

subsection \<open>The working directory\<close>




subsection \<open>The socket mount\<close>

text \<open>
  C5. With three mounts, a socket mounted at another path than its source passes: the
  booleans of \<open>sock_mnt\<close> are computed and never read, and only the branch for two
  mounts compares source and destination of the socket mount.
\<close>

theorem prepare_mount_accepts_moved_socket:
  "length (sock_mounts [sock_mount ''/docker.sock'', bind_mount ''/data'' ''/data'',
                          bind_mount ''/home/user/ref'' ''/ref'']) = 1
   \<and> \<not> list_all mirrored (sock_mounts [sock_mount ''/docker.sock'',
          bind_mount ''/data'' ''/data'', bind_mount ''/home/user/ref'' ''/ref''])
   \<and> fst (prepare_mount
            (demo_env [sock_mount ''/docker.sock'', bind_mount ''/data'' ''/data'',
                       bind_mount ''/home/user/ref'' ''/ref''] 0 0)
            demo_self demo_world)
       = Inr ''/data''"
  by (simp add: prepare_mount_result [OF demo_container_mounts]
                sock_mount_def bind_mount_def mount_eval)

subsection \<open>The attributes set at construction\<close>

text \<open>
  C6, as amended. The two methods that assign attributes are \<^verbatim>\<open>run\<close> and
  \<^verbatim>\<open>_prepare_mount\<close> (the others return no object). Neither changes the name, the
  description or the two feature flags, and \<^verbatim>\<open>_prepare_mount\<close> does not change the
  config; \<^verbatim>\<open>run\<close> replaces the config template by its dedented interpolation as
  soon as the mount is resolved and the template interpolates.
\<close>

theorem run_keeps_identity:
  "self_name (fst (snd (run E self args pc w))) = self_name self
   \<and> self_desc (fst (snd (run E self args pc w))) = self_desc self
   \<and> self_no_clean (fst (snd (run E self args pc w))) = self_no_clean self
   \<and> self_resume (fst (snd (run E self args pc w))) = self_resume self
   \<and> self_name (fst (snd (prepare_mount E self w))) = self_name self
   \<and> self_desc (fst (snd (prepare_mount E self w))) = self_desc self
   \<and> self_config (fst (snd (prepare_mount E self w))) = self_config self
   \<and> self_no_clean (fst (snd (prepare_mount E self w))) = self_no_clean self
   \<and> self_resume (fst (snd (prepare_mount E self w))) = self_resume self
   \<and> (fst (prepare_mount E self w) = Inr m
        \<and> str_format E (self_config self) (args(''output_dir'' \<mapsto> PyStr m)) = Inr body
       \<longrightarrow> self_config (fst (snd (run E self args pc w))) = dedent E body)"
  using run_setup_config [of E self w m args body pc]
  by (simp add: run_object run_setup_identity prepare_mount_identity)

theorem run_keeps_identity_witness:
  "fst (prepare_mount (demo_env demo_mounts 0 0) demo_self demo_world) = Inr ''/data''
   \<and> str_format (demo_env demo_mounts 0 0) (self_config demo_self)
         ((demo_args False False)(''output_dir'' \<mapsto> PyStr ''/data'')) = Inr ''output: /data''
   \<and> self_config (fst (snd (run (demo_env demo_mounts 0 0) demo_self (demo_args False False)
                              demo_pipeline demo_world))) = ''output: /data''
   \<and> self_name (fst (snd (run (demo_env demo_mounts 0 0) demo_self (demo_args False False)
                            demo_pipeline demo_world))) = ''toil-rnaseq''"
proof -
  note claim = run_keeps_identity
    [of "demo_env demo_mounts 0 0" demo_self "demo_args False False" demo_pipeline demo_world
        "''/data''" "''output: /data''"]
  have 1: "self_config (fst (snd (run (demo_env demo_mounts 0 0) demo_self
                                    (demo_args False False) demo_pipeline demo_world)))
             = ''output: /data''"
    using claim demo_prepare_mount [of 0 0 demo_world]
          demo_format [of demo_mounts 0 0 False False]
    by (simp add: demo_dedent)
  have 2: "self_name (fst (snd (run (demo_env demo_mounts 0 0) demo_self
                                  (demo_args False False) demo_pipeline demo_world)))
             = ''toil-rnaseq''"
    using claim [THEN conjunct1] by (simp add: demo_paths)
  show ?thesis
    apply (intro conjI)
       apply (rule demo_prepare_mount)
      apply (rule demo_format)
     apply (rule 1)
    apply (rule 2)
    done
qed

text \<open>
  C6, as stated, fails: after a run the config attribute holds the interpolated text and
  not the template given at construction (line 47 assigns it).
\<close>

theorem run_overwrites_config:
  "self_config demo_self = ''output: {output_dir}''
   \<and> self_config (fst (snd (run (demo_env demo_mounts 0 0) demo_self (demo_args False False)
                              demo_pipeline demo_world))) = ''output: /data''"
proof -
  have before: "self_config demo_self = ''output: {output_dir}''"
    by (simp add: demo_self_def init_def)
  have after: "self_config (fst (snd (run (demo_env demo_mounts 0 0) demo_self
                 (demo_args False False) demo_pipeline demo_world))) = ''output: /data''"
    by (simp add: run_object run_setup_config [OF demo_prepare_mount demo_format] demo_dedent)
  show ?thesis
    apply (intro conjI)
     apply (rule before)
    apply (rule after)
    done
qed

subsection \<open>Aborting before the pipeline\<close>

text \<open>
  C7. When mount resolution raises, \<^verbatim>\<open>run\<close> raises the same exception, and when the
  working directory exists and resume was not requested, \<^verbatim>\<open>run\<close> raises as well; in
  both cases it leaves the world as mount resolution left it. Mount resolution itself
  only runs the two docker queries. So no config file is written, no pipeline and no
  \<^verbatim>\<open>chown\<close> is started and nothing is removed.
\<close>

theorem run_aborts_before_pipeline:
  "(fst (prepare_mount E self w) = Inl e \<longrightarrow>
      fst (run E self args pc w) = Inl e
      \<and> snd (snd (run E self args pc w)) = snd (snd (prepare_mount E self w)))
   \<and> (fst (prepare_mount E self w) = Inr m
       \<and> fs (snd (snd (prepare_mount E self w))) (workdir_path self m) \<noteq> None
       \<and> \<not> requested (self_resume self) args ''resume'' \<longrightarrow>
      (\<exists>e'. fst (run E self args pc w) = Inl e')
      \<and> snd (snd (run E self args pc w)) = snd (snd (prepare_mount E self w)))
   \<and> list_all docker_query (new_events w (snd (snd (prepare_mount E self w))))"
  using run_stops_at_mount [of E self w e args pc] run_stops_at_workdir [of E self w m args pc]
        prepare_mount_events [of w E self]
  by blast

theorem run_aborts_before_pipeline_witness:
  "fst (prepare_mount (demo_env [sock_mount ''/var/run/docker.sock''] 0 0) demo_self demo_world)
     = Inl (ConfigurationError msg_mirror)
   \<and> fst (run (demo_env [sock_mount ''/var/run/docker.sock''] 0 0) demo_self
           (demo_args False False) demo_pipeline demo_world)
       = Inl (ConfigurationError msg_mirror)
   \<and> snd (snd (run (demo_env [sock_mount ''/var/run/docker.sock''] 0 0) demo_self
                  (demo_args False False) demo_pipeline demo_world))
       = demo_world\<lparr>trace := [Exec name_command, Exec [''docker'', ''inspect'', ''wrapper'']]\<rparr>
   \<and> fst (prepare_mount (demo_env demo_mounts 0 0) demo_self demo_world_used) = Inr ''/data''
   \<and> fs (snd (snd (prepare_mount (demo_env demo_mounts 0 0) demo_self demo_world_used)))
         (workdir_path demo_self ''/data'') \<noteq> None
   \<and> \<not> requested (self_resume demo_self) (demo_args False False) ''resume''
   \<and> fst (run (demo_env demo_mounts 0 0) demo_self (demo_args False False) demo_pipeline
           demo_world_used)
       = Inl (UserError (msg_exists ''/data/Toil-toil-rnaseq''))
   \<and> snd (snd (run (demo_env demo_mounts 0 0) demo_self (demo_args False False)
                  demo_pipeline demo_world_used))
       = demo_world_used
           \<lparr>trace := [Exec name_command, Exec [''docker'', ''inspect'', ''wrapper'']],
            logged := [''The work mount is: /data'']\<rparr>
   \<and> list_all docker_query [Exec name_command, Exec [''docker'', ''inspect'', ''wrapper'']]"
proof -
  let ?E1 = "demo_env [sock_mount ''/var/run/docker.sock''] 0 0"
  let ?E = "demo_env demo_mounts 0 0"
  have a: "fst (prepare_mount ?E1 demo_self demo_world) = Inl (ConfigurationError msg_mirror)"
    by (simp add: demo_no_mount)
  have b: "fs (snd (snd (prepare_mount ?E demo_self demo_world_used)))
             (workdir_path demo_self ''/data'') \<noteq> None"
    by (simp add: demo_prepare_mount_world demo_paths demo_world_used_def)
  have c: "\<not> requested (self_resume demo_self) (demo_args False False) ''resume''"
    by (simp add: requested_def demo_args_lookup)
  note first = run_aborts_before_pipeline
    [of ?E1 demo_self demo_world "ConfigurationError msg_mirror" "(demo_args False False)"
        demo_pipeline "''/data''", THEN conjunct1, rule_format, OF a]
  note second = run_aborts_before_pipeline
    [of ?E demo_self demo_world_used "ConfigurationError msg_mirror" "(demo_args False False)"
        demo_pipeline "''/data''", THEN conjunct2, THEN conjunct1, rule_format,
     OF conjI [OF demo_prepare_mount conjI [OF b c]]]
  note third = run_aborts_before_pipeline
    [of ?E demo_self demo_world_used "ConfigurationError msg_mirror" "(demo_args False False)"
        demo_pipeline "''/data''", THEN conjunct2, THEN conjunct2]
  have 1: "snd (snd (run ?E1 demo_self (demo_args False False) demo_pipeline demo_world))
       = demo_world\<lparr>trace := [Exec name_command, Exec [''docker'', ''inspect'', ''wrapper'']]\<rparr>"
    using first [THEN conjunct2] by (simp add: demo_no_mount demo_world_def)
  have 2: "snd (snd (run ?E demo_self (demo_args False False) demo_pipeline demo_world_used))
       = demo_world_used
           \<lparr>trace := [Exec name_command, Exec [''docker'', ''inspect'', ''wrapper'']],
            logged := [''The work mount is: /data'']\<rparr>"
    using second [THEN conjunct2] by (simp add: demo_prepare_mount_world demo_world_used_def)
  have 3: "fst (run ?E demo_self (demo_args False False) demo_pipeline demo_world_used)
       = Inl (UserError (msg_exists ''/data/Toil-toil-rnaseq''))"
    by (simp add: run_eval demo_defs os_defs mount_eval Let_def demo_pipeline_def)
  have 4: "list_all docker_query [Exec name_command, Exec [''docker'', ''inspect'', ''wrapper'']]"
    using third by (simp add: demo_prepare_mount_world new_events_def demo_world_used_def)
  show ?thesis
    apply (intro conjI)
            apply (rule a)
           apply (rule first [THEN conjunct1])
          apply (rule 1)
         apply (rule demo_prepare_mount)
        apply (rule b)
       apply (rule c)
      apply (rule 3)
     apply (rule 2)
    apply (rule 4)
    done
qed

subsection \<open>The config file\<close>

text \<open>
  C8. When \<^verbatim>\<open>run\<close> reaches the pipeline, the working directory is the join of the
  mount and \<^verbatim>\<open>Toil-\<close> followed by the name, the last thing done before the pipeline
  is started is to write the config file, at the join of the working directory and
  \<^verbatim>\<open>config\<close>, and the file then holds the dedented interpolation of the template
  with the namespace extended by \<^verbatim>\<open>output_dir\<close>, the mount. For a mount and a name
  that do not end with a slash the two joins are the plain concatenations with a slash.
\<close>

theorem run_writes_config:
  assumes "run_setup E self args pc w = (Inr command, self', args', w')"
    and "fst (prepare_mount E self w) = Inr m"
    and "str_format E (self_config self) (args(''output_dir'' \<mapsto> PyStr m)) = Inr body"
  shows "self_workdir self' = Some (path_join m (''Toil-'' @ self_name self))
       \<and> last (trace w')
           = OpenWrite (path_join (path_join m (''Toil-'' @ self_name self)) ''config'')
               (dedent E body)
       \<and> fs w' (path_join (path_join m (''Toil-'' @ self_name self)) ''config'')
           = Some (File (dedent E body))
       \<and> (\<exists>rest. trace (snd (snd (run E self args pc w))) = trace w' @ Exec command # rest)
       \<and> (m \<noteq> [] \<and> last m \<noteq> CHR ''/''
            \<and> (self_name self = [] \<or> last (self_name self) \<noteq> CHR ''/'') \<longrightarrow>
          path_join m (''Toil-'' @ self_name self) = m @ ''/Toil-'' @ self_name self
          \<and> path_join (path_join m (''Toil-'' @ self_name self)) ''config''
              = m @ ''/Toil-'' @ self_name self @ ''/config'')"
proof -
  from assms(1) obtain m' w1 body' restart w2 where
    pm: "prepare_mount E self w = (Inr m', self\<lparr>self_mount := Some m'\<rparr>, w1)" and
    fmt: "str_format E (self_config self) (args(''output_dir'' \<mapsto> PyStr m')) = Inr body'" and
    self': "self' = configured self m' (dedent E body')" and
    ow: "open_write (config_path self m') (dedent E body') w2 = (Inr (), w')"
    by (rule run_setup_Inr)
  have m: "m' = m"
    using pm assms(2) by simp
  have body: "body' = body"
    using fmt assms(3) m by simp
  have 1: "self_workdir self' = Some (workdir_path self m)"
    by (simp add: self' m configured_fields)
  have 2: "last (trace w') = OpenWrite (config_path self m) (dedent E body)"
    using open_write_Inr(1) [OF ow] by (simp add: m body)
  have 3: "fs w' (config_path self m) = Some (File (dedent E body))"
    using open_write_Inr(2) [OF ow] by (simp add: m body)
  have "\<exists>evs. trace (snd (run_pipeline E self' args' command w')) = trace w' @ Exec command # evs"
    by (rule run_pipeline_trace [of self' m "workdir_path self m"])
       (simp_all add: self' m configured_fields)
  then have 4: "\<exists>rest. trace (snd (snd (run E self args pc w))) = trace w' @ Exec command # rest"
    by (simp add: run_after_setup [OF assms(1)])
  from 1 2 3 4 literal_paths [of m self] show ?thesis
    by (simp add: workdir_path_def config_path_def)
qed

theorem run_writes_config_witness:
  "fst (run_setup (demo_env demo_mounts 0 0) demo_self (demo_args False False)
         demo_pipeline demo_world) = Inr demo_command
   \<and> fst (prepare_mount (demo_env demo_mounts 0 0) demo_self demo_world) = Inr ''/data''
   \<and> str_format (demo_env demo_mounts 0 0) (self_config demo_self)
         ((demo_args False False)(''output_dir'' \<mapsto> PyStr ''/data'')) = Inr ''output: /data''
   \<and> self_workdir (fst (snd (run_setup (demo_env demo_mounts 0 0) demo_self
                                (demo_args False False) demo_pipeline demo_world)))
       = Some ''/data/Toil-toil-rnaseq''
   \<and> last (trace (snd (snd (snd (run_setup (demo_env demo_mounts 0 0) demo_self
                                     (demo_args False False) demo_pipeline demo_world)))))
       = OpenWrite ''/data/Toil-toil-rnaseq/config'' ''output: /data''
   \<and> fs (snd (snd (snd (run_setup (demo_env demo_mounts 0 0) demo_self
                           (demo_args False False) demo_pipeline demo_world))))
         ''/data/Toil-toil-rnaseq/config''
       = Some (File ''output: /data'')"
proof -
  note claim = run_writes_config
    [OF tuple4 [OF demo_setup_fresh [of 0 0 False]] demo_prepare_mount [of 0 0 demo_world]
        demo_format [of demo_mounts 0 0 False False]]
  show ?thesis
    apply (intro conjI)
         apply (rule demo_setup_fresh)
        apply (rule demo_prepare_mount)
       apply (rule demo_format)
      apply (rule claim [THEN conjunct1, unfolded demo_join])
     apply (rule claim [THEN conjunct2, THEN conjunct1, unfolded demo_join demo_dedent])
    apply (rule claim [THEN conjunct2, THEN conjunct2, THEN conjunct1,
                       unfolded demo_join demo_dedent])
    done
qed

subsection \<open>What the cleanup removes\<close>

text \<open>
  C9. In a run that returns normally, after the pipeline the wrapper reads the owner,
  starts \<^verbatim>\<open>chown\<close> and, unless no-clean was requested, removes the working directory.
  With no-clean requested the file system stays as \<^verbatim>\<open>chown\<close> left it. Otherwise
  exactly the tree of the working directory is gone: every path in it is absent and every
  other path is as \<^verbatim>\<open>chown\<close> left it.
\<close>

theorem run_removes_only_workdir:
  assumes "run_setup E self args pc w = (Inr command, self', args', w1)"
    and "fst (prepare_mount E self w) = Inr m"
    and "run E self args pc w = (Inr (), self'', w'')"
    and "run_try E command w1 = (pending, w2)"
    and "exec E (chown_command (owner E m) m) (fs w2) = (st, f)"
  shows "(requested (self_no_clean self) args ''no_clean'' \<longrightarrow>
            fs w'' = f
            \<and> new_events w2 w'' = [Stat m, Exec (chown_command (owner E m) m)])
       \<and> (\<not> requested (self_no_clean self) args ''no_clean'' \<longrightarrow>
            fs w'' = remove_tree (workdir_path self m) f
            \<and> new_events w2 w'' = [Stat m, Exec (chown_command (owner E m) m),
                                     Rmtree (workdir_path self m)]
            \<and> (\<forall>q. in_tree (workdir_path self m) q \<longrightarrow> fs w'' q = None))
       \<and> (\<forall>q. \<not> in_tree (workdir_path self m) q \<longrightarrow> fs w'' q = f q)"
proof -
  let ?chown = "chown_command (owner E m) m"
  let ?wd = "workdir_path self m"
  let ?keep = "requested (self_no_clean self) args ''no_clean''"
  obtain body where self': "self' = configured self m (dedent E body)"
    using run_setup_object(1) [OF assms(1,2)] by blast
  have args': "args' = args(''output_dir'' \<mapsto> PyStr m)"
    using run_setup_object(2) [OF assms(1,2)] .
  have mnt: "self_mount self' = Some m" and wd: "self_workdir self' = Some ?wd"
    by (simp_all add: self' configured_fields)
  have fin: "run_finally E self' args' w2 = (Inr (), w'')"
    using assms(3)
    by (cases "run_finally E self' args' w2")
       (auto simp: run_after_setup [OF assms(1)] run_pipeline_def assms(4)
             split: sum.splits option.splits)
  have nn: "fs w2 m \<noteq> None"
  proof
    assume "fs w2 m = None"
    then show False
      using fin by (simp add: run_finally_no_stat [OF mnt])
  qed
  note eq = fin [unfolded run_finally_eq [OF mnt wd nn assms(5)] Let_def]
  have keep: "flag_and (self_no_clean self') args' ''no_clean'' = Inr ?keep"
  proof (cases "flag_and (self_no_clean self') args' ''no_clean''")
    case (Inl e)
    with eq show ?thesis by (auto split: sum.splits)
  next
    case (Inr b)
    then have "b = requested (self_no_clean self') args' ''no_clean''"
      by (rule flag_and_Inr)
    then show ?thesis
      using Inr by (simp add: self' configured_fields args' requested_def)
  qed
  have kept: "fs w'' = f \<and> new_events w2 w'' = [Stat m, Exec ?chown]" if ?keep
    using eq that
    by (auto simp: keep log_info_def new_events_def split: sum.splits)
  have removed: "fs w'' = remove_tree ?wd f
                 \<and> new_events w2 w'' = [Stat m, Exec ?chown, Rmtree ?wd]" if "\<not> ?keep"
    using eq that
    by (auto simp: keep log_info_def new_events_def shutil_rmtree_def record_event_def
             split: sum.splits option.splits node.splits)
  show ?thesis
    using kept removed by (cases ?keep) (simp_all add: remove_tree_frame)
qed

theorem run_removes_only_workdir_witness:
  "fst (run (demo_env demo_mounts 0 0) demo_self (demo_args False True)
         demo_pipeline demo_world) = Inr ()
   \<and> requested (self_no_clean demo_self) (demo_args False True) ''no_clean''
   \<and> fs (snd (snd (run (demo_env demo_mounts 0 0) demo_self (demo_args False True)
                      demo_pipeline demo_world)))
       = [''/data'' \<mapsto> Dir, ''/data/Toil-toil-rnaseq'' \<mapsto> Dir,
          ''/data/Toil-toil-rnaseq/config'' \<mapsto> File ''output: /data'',
          ''/data/out.txt'' \<mapsto> File ''done'']
   \<and> fst (run (demo_env demo_mounts 0 0) demo_self (demo_args False False)
           demo_pipeline demo_world) = Inr ()
   \<and> \<not> requested (self_no_clean demo_self) (demo_args False False) ''no_clean''
   \<and> new_events
         (snd (run_try (demo_env demo_mounts 0 0) demo_command
            (snd (snd (snd (run_setup (demo_env demo_mounts 0 0) demo_self
                              (demo_args False False) demo_pipeline demo_world))))))
         (snd (snd (run (demo_env demo_mounts 0 0) demo_self (demo_args False False)
                      demo_pipeline demo_world)))
       = [Stat ''/data'', Exec [''chown'', ''-R'', ''1000:1000'', ''/data''],
          Rmtree ''/data/Toil-toil-rnaseq'']
   \<and> fs (snd (snd (run (demo_env demo_mounts 0 0) demo_self (demo_args False False)
                      demo_pipeline demo_world))) ''/data/Toil-toil-rnaseq'' = None
   \<and> fs (snd (snd (run (demo_env demo_mounts 0 0) demo_self (demo_args False False)
                      demo_pipeline demo_world))) ''/data/Toil-toil-rnaseq/config'' = None
   \<and> fs (snd (snd (run (demo_env demo_mounts 0 0) demo_self (demo_args False False)
                      demo_pipeline demo_world))) ''/data/out.txt'' = Some (File ''done'')
   \<and> fs (snd (snd (run (demo_env demo_mounts 0 0) demo_self (demo_args False False)
                      demo_pipeline demo_world))) ''/data'' = Some Dir"
proof -
  let ?E = "demo_env demo_mounts 0 0"
  let ?chown = "[''chown'', ''-R'', ''1000:1000'', ''/data'']"
  let ?w2 = "\<lambda>nc. snd (run_try ?E demo_command
                (snd (snd (snd (run_setup ?E demo_self (demo_args False nc) demo_pipeline
                                  demo_world)))))"
  let ?end = "\<lambda>nc. snd (snd (run ?E demo_self (demo_args False nc) demo_pipeline demo_world))"
  have ex: "exec ?E (chown_command (owner ?E ''/data'') ''/data'') (fs (?w2 nc))
               = (Exited 0 [], fs (?w2 nc))" for nc
    by (simp add: demo_owner demo_chown demo_exec_chown)
  have keep: "requested (self_no_clean demo_self) (demo_args False True) ''no_clean''"
    by (simp add: requested_def demo_args_lookup demo_paths)
  have clean: "\<not> requested (self_no_clean demo_self) (demo_args False False) ''no_clean''"
    by (simp add: requested_def demo_args_lookup)
  note kept = run_removes_only_workdir
    [OF tuple4 [OF demo_setup_fresh [of 0 0 True]] demo_prepare_mount [of 0 0 demo_world]
        tuple3 [OF demo_run_completes [of True]] pair_of ex [of True]]
  note removed = run_removes_only_workdir
    [OF tuple4 [OF demo_setup_fresh [of 0 0 False]] demo_prepare_mount [of 0 0 demo_world]
        tuple3 [OF demo_run_completes [of False]] pair_of ex [of False]]
  have 1: "fs (?end True)
       = [''/data'' \<mapsto> Dir, ''/data/Toil-toil-rnaseq'' \<mapsto> Dir,
          ''/data/Toil-toil-rnaseq/config'' \<mapsto> File ''output: /data'',
          ''/data/out.txt'' \<mapsto> File ''done'']"
    using kept [THEN conjunct1] keep by (simp add: demo_try_fs)
  have 2: "new_events (?w2 False) (?end False) = [Stat ''/data'', Exec ?chown,
          Rmtree ''/data/Toil-toil-rnaseq'']"
    using removed [THEN conjunct2, THEN conjunct1] clean
    by (simp add: demo_owner demo_chown demo_paths)
  have 3: "fs (?end False) ''/data/Toil-toil-rnaseq'' = None"
          "fs (?end False) ''/data/Toil-toil-rnaseq/config'' = None"
    using removed [THEN conjunct2, THEN conjunct1] clean
    by (simp_all add: demo_paths demo_in_tree remove_tree_frame)
  have 4: "fs (?end False) ''/data/out.txt'' = Some (File ''done'')"
          "fs (?end False) ''/data'' = Some Dir"
    using removed [THEN conjunct2, THEN conjunct2]
    by (simp_all add: demo_paths demo_in_tree demo_try_fs)
  show ?thesis
    apply (intro conjI)
             apply (rule demo_run_completes)
            apply (rule keep)
           apply (rule 1)
          apply (rule demo_run_completes)
         apply (rule clean)
        apply (rule 2)
       apply (rule 3(1))
      apply (rule 3(2))
     apply (rule 4(1))
    apply (rule 4(2))
    done
qed

subsection \<open>chown fails\<close>

text \<open>
  C10. When the mount can be read and \<^verbatim>\<open>chown\<close> exits with a non-zero status,
  \<^verbatim>\<open>run\<close> raises the CalledProcessError of \<^verbatim>\<open>chown\<close>, whatever the pipeline did
  and whether or not no-clean was requested; after the pipeline it has only read the
  owner and started \<^verbatim>\<open>chown\<close>, so nothing is removed and the file system is as
  \<^verbatim>\<open>chown\<close> left it.
\<close>

theorem run_chown_failure_propagates:
  assumes "run_setup E self args pc w = (Inr command, self', args', w1)"
    and "fst (prepare_mount E self w) = Inr m"
    and "run_try E command w1 = (pending, w2)"
    and "fs w2 m \<noteq> None"
    and "exec E (chown_command (owner E m) m) (fs w2) = (Exited rc out, f)"
    and "rc \<noteq> 0"
  shows "fst (run E self args pc w)
           = Inl (CalledProcessError rc (chown_command (owner E m) m))
       \<and> new_events w2 (snd (snd (run E self args pc w)))
           = [Stat m, Exec (chown_command (owner E m) m)]
       \<and> fs (snd (snd (run E self args pc w))) = f"
proof -
  let ?chown = "chown_command (owner E m) m"
  obtain body where self': "self' = configured self m (dedent E body)"
    using run_setup_object(1) [OF assms(1,2)] by blast
  have mnt: "self_mount self' = Some m" and wd: "self_workdir self' = Some (workdir_path self m)"
    by (simp_all add: self' configured_fields)
  have fin: "run_finally E self' args' w2 =
               (Inl (CalledProcessError rc ?chown),
                w2\<lparr>fs := f, trace := trace w2 @ [Stat m, Exec ?chown],
                     logged := logged w2 @ [msg_terminated]\<rparr>)"
    using assms(6) by (simp add: run_finally_eq [OF mnt wd assms(4,5)] Let_def)
  have "run_pipeline E self' args' command w1 =
               (Inl (CalledProcessError rc ?chown),
                w2\<lparr>fs := f, trace := trace w2 @ [Stat m, Exec ?chown],
                     logged := logged w2 @ [msg_terminated]\<rparr>)"
    by (simp add: run_pipeline_def assms(3) fin)
  then show ?thesis
    by (simp add: run_after_setup [OF assms(1)] new_events_def)
qed

theorem run_chown_failure_propagates_witness:
  "fst (run_setup (demo_env demo_mounts 0 3) demo_self (demo_args False False)
         demo_pipeline demo_world) = Inr demo_command
   \<and> fst (prepare_mount (demo_env demo_mounts 0 3) demo_self demo_world) = Inr ''/data''
   \<and> fs (snd (run_try (demo_env demo_mounts 0 3) demo_command
              (snd (snd (snd (run_setup (demo_env demo_mounts 0 3) demo_self
                                (demo_args False False) demo_pipeline demo_world))))))
         ''/data'' \<noteq> None
   \<and> fst (exec (demo_env demo_mounts 0 3) [''chown'', ''-R'', ''1000:1000'', ''/data'']
           (fs (snd (run_try (demo_env demo_mounts 0 3) demo_command
                  (snd (snd (snd (run_setup (demo_env demo_mounts 0 3) demo_self
                                    (demo_args False False) demo_pipeline demo_world))))))))
       = Exited 3 []
   \<and> fst (run (demo_env demo_mounts 0 3) demo_self (demo_args False False)
           demo_pipeline demo_world)
       = Inl (CalledProcessError 3 [''chown'', ''-R'', ''1000:1000'', ''/data''])
   \<and> new_events
         (snd (run_try (demo_env demo_mounts 0 3) demo_command
            (snd (snd (snd (run_setup (demo_env demo_mounts 0 3) demo_self
                              (demo_args False False) demo_pipeline demo_world))))))
         (snd (snd (run (demo_env demo_mounts 0 3) demo_self (demo_args False False)
                      demo_pipeline demo_world)))
       = [Stat ''/data'', Exec [''chown'', ''-R'', ''1000:1000'', ''/data'']]
   \<and> fs (snd (snd (run (demo_env demo_mounts 0 3) demo_self (demo_args False False)
                      demo_pipeline demo_world))) ''/data/Toil-toil-rnaseq'' = Some Dir"
proof -
  let ?E = "demo_env demo_mounts 0 3"
  let ?prep = "run_setup ?E demo_self (demo_args False False) demo_pipeline demo_world"
  let ?w2 = "snd (run_try ?E demo_command (snd (snd (snd ?prep))))"
  let ?chown = "[''chown'', ''-R'', ''1000:1000'', ''/data'']"
  have mnt: "fs ?w2 ''/data'' \<noteq> None"
    by (simp add: demo_try_fs)
  have ex: "fst (exec ?E ?chown (fs ?w2)) = Exited 3 []"
    by (simp add: demo_exec_chown)
  have ex': "exec ?E (chown_command (owner ?E ''/data'') ''/data'') (fs ?w2)
               = (Exited 3 [], snd (exec ?E ?chown (fs ?w2)))"
    by (simp add: demo_owner demo_chown demo_exec_chown)
  have rc: "(3::int) \<noteq> 0"
    by simp
  note claim = run_chown_failure_propagates
    [OF tuple4 [OF demo_setup_fresh [of 0 3 False]] demo_prepare_mount [of 0 3 demo_world]
        pair_of mnt ex' rc]
  have res: "fst (run ?E demo_self (demo_args False False) demo_pipeline demo_world)
       = Inl (CalledProcessError 3 ?chown)"
    using claim [THEN conjunct1] by (simp add: demo_owner demo_chown)
  have evs: "new_events ?w2
               (snd (snd (run ?E demo_self (demo_args False False) demo_pipeline demo_world)))
       = [Stat ''/data'', Exec ?chown]"
    using claim [THEN conjunct2, THEN conjunct1] by (simp add: demo_owner demo_chown)
  have kept: "fs (snd (snd (run ?E demo_self (demo_args False False) demo_pipeline
                             demo_world))) ''/data/Toil-toil-rnaseq'' = Some Dir"
    using claim [THEN conjunct2, THEN conjunct2]
    by (simp add: demo_exec_chown demo_try_fs)
  show ?thesis
    apply (intro conjI)
          apply (rule demo_setup_fresh)
         apply (rule demo_prepare_mount)
        apply (rule mnt)
       apply (rule ex)
      apply (rule res)
     apply (rule evs)
    apply (rule kept)
    done
qed

end
